theory Spec2Isabelle
  imports Main "HOL-Library.Word"
begin

unbundle bit_operations_syntax

section \<open>The Mbox of the Alpha 21264 emulator: data model\<close>

text \<open>
  The development embeds the Mbox routines of \<^verbatim>\<open>AXP_21264_Mbox.c\<close> (load and store
  queue slot allocation, the store forwarding scan and cache probing of
  \<^verbatim>\<open>AXP_21264_Mbox_TryCaches\<close>, \<^verbatim>\<open>AXP_21264_Mbox_LQ_Init\<close>, \<^verbatim>\<open>AXP_21264_Mbox_Init\<close>)
  and the store-conditional helpers of \<^verbatim>\<open>AXP_21264_Ebox_LoadStore.c\<close>.

  The header that declares the Mbox structures, enumerations and constants is not part of
  the sources at hand. Structures are therefore records with exactly the fields the
  routines read or write. Enumerations are datatypes with the enumerators that the
  sources and the specification name, taken to be distinct, and one more constructor for
  the remaining values where the sources name only some. The compile-time constants are
  fields of the record \<open>AXP_CONSTS\<close>, which the routines that use them take as their
  first argument, so that every theorem holds for all values of the constants. Threads
  and mutexes are not modelled: each routine is the sequential function that runs
  between its lock and unlock.
\<close>

type_synonym u8 = "8 word"
type_synonym u16 = "16 word"
type_synonym u32 = "32 word"
type_synonym u64 = "64 word"

record AXP_CONSTS =
  AXP_MBOX_QUEUE_LEN :: u32
  AXP_CACHE_ENTRIES :: nat
  AXP_2_WAY_CACHE :: nat
  AXP_DCACHE_DATA_LEN :: nat
  AXP_TB_LEN :: nat
  AXP_21264_MAF_LEN :: nat
  AXP_MBOX_ALTMODE_KERNEL :: nat
  AXP_21264_CACHE_HIT :: u8
  AXP_HW_LD_LONGWORD :: nat

subsection \<open>Instructions\<close>

datatype AXP_OPCODE =
  LDA | LDAH | LDBU | LDQ_U | LDW_U | HW_LD | LDF | LDG | LDS | LDT
  | LDL | LDQ | LDL_L | LDQ_L | OTHER_OPCODE nat

datatype AXP_INS_STATE = Executing | WaitingForCompletion | WaitingRetirement

datatype AXP_EXCEPTIONS = NoException | OtherException nat

text \<open>
  The instruction descriptor. \<open>uniqueID\<close> and the register index are unsigned numbers
  that the routines only compare or pass on, so they are natural numbers.
\<close>

record AXP_INSTRUCTION =
  uniqueID :: nat
  opcode :: AXP_OPCODE
  pc :: u64
  aDest :: nat
  src1v :: u64
  displacement :: u64
  destv :: u64
  len_stall :: nat
  lockFlagPending :: bool
  lockPhysAddrPending :: u64
  lockVirtAddrPending :: u64
  clearLockPending :: bool
  state :: AXP_INS_STATE

subsection \<open>Queue entries, caches, translation buffer, miss address file\<close>

datatype AXP_MBOX_QUEUE_STATE =
  QNotInUse | Assigned | Initial | LQReadPending | LQReadable | LQComplete
  | SQWritePending | SQReady | SQComplete

text \<open>
  An entry of the load or store queue. The field \<open>instr\<close> is the C pointer to the
  instruction descriptor: \<open>None\<close> is \<^verbatim>\<open>NULL\<close>, \<open>Some p\<close> the address \<open>p\<close> of a
  descriptor in the instruction store of the state below. The C field \<^verbatim>\<open>value\<close> is
  called \<open>qvalue\<close> here.
\<close>

record AXP_MBOX_QUEUE =
  qvalue :: u64
  virtAddress :: u64
  physAddress :: u64
  len :: nat
  instr :: "nat option"
  state :: AXP_MBOX_QUEUE_STATE
  IOflag :: bool
  lockCond :: bool

datatype AXP_CACHE_ST = Invalid | OTHER_CACHE_ST nat

record AXP_DCACHE_BLK =
  data :: "u8 list"
  physTag :: u64
  valid :: bool
  dirty :: bool
  shared :: bool
  modified :: bool
  set_0_1 :: bool
  locked :: bool
  state :: AXP_CACHE_ST

record AXP_DTAG_BLK =
  physTag :: u64
  ctagIndex :: nat
  ctagSet :: nat
  valid :: bool

record AXP_21264_TLB =
  virtAddr :: u64
  physAddr :: u64
  matchMask :: u64
  keepMask :: u64
  kre :: nat
  ere :: nat
  sre :: nat
  ure :: nat
  kwe :: nat
  ewe :: nat
  swe :: nat
  uwe :: nat
  faultOnRead :: nat
  faultOnWrite :: nat
  faultOnExecute :: nat
  res_1 :: nat
  asn :: nat
  x_asm :: bool
  valid :: bool

datatype AXP_MAF_TYPE = MAFNotInUse | LDx | STx | OTHER_MAF_TYPE nat
datatype AXP_CBOX_RQ = NOPcmd | OTHER_RQ nat
datatype AXP_CBOX_RSP = NOPsysdc | OTHER_RSP nat

record AXP_21264_MAF =
  type :: AXP_MAF_TYPE
  rq :: AXP_CBOX_RQ
  rsp :: AXP_CBOX_RSP
  pa :: u64
  complete :: bool

subsection \<open>Internal processor registers of the Mbox\<close>

record AXP_MBOX_DTB_TAG =
  res_1 :: nat
  va :: u64
  res_2 :: nat

record AXP_MBOX_DTB_PTE =
  res_1 :: nat
  pa :: u64
  res_2 :: nat
  uwe :: nat
  swe :: nat
  ewe :: nat
  kwe :: nat
  ure :: nat
  sre :: nat
  ere :: nat
  kre :: nat
  res_3 :: nat
  gh :: nat
  x_asm :: nat
  res_4 :: nat
  fow :: nat
  x_for :: nat
  res_5 :: nat

record AXP_MBOX_DTB_ALTMODE =
  alt_mode :: nat
  res :: nat

record AXP_MBOX_DTB_IS =
  res_1 :: nat
  inval_itb :: nat
  res_2 :: nat

record AXP_MBOX_DTB_ASN =
  res_1 :: nat
  asn :: nat
  res_2 :: nat

record AXP_MBOX_MM_STAT =
  res :: nat
  dc_tag_perr :: nat
  opcodes :: nat
  fow :: nat
  x_for :: nat
  acv :: nat
  wr :: nat

record AXP_MBOX_M_CTL =
  res_1 :: nat
  spe :: nat
  res_2 :: nat

record AXP_MBOX_DC_CTL =
  dcdat_err_en :: nat
  dctag_par_en :: nat
  f_bad_decc :: nat
  f_bad_tpar :: nat
  f_hit :: nat
  set_en :: nat

record AXP_MBOX_DC_STAT =
  res :: nat
  seo :: nat
  ecc_err_ld :: nat
  ecc_err_st :: nat
  tperr_p1 :: nat

record AXP_EBOX_VA_CTL =
  b_endian :: nat

subsection \<open>The CPU\<close>

text \<open>
  The part of \<^verbatim>\<open>AXP_21264_CPU\<close> that the routines touch. C arrays are lists; the
  predicate \<open>cpu_sized\<close> says that each has the length its declaration gives it.
\<close>

record AXP_21264_CPU =
  dCache :: "AXP_DCACHE_BLK list list"
  dtag :: "AXP_DTAG_BLK list list"
  lq :: "AXP_MBOX_QUEUE list"
  lqNext :: u32
  sq :: "AXP_MBOX_QUEUE list"
  sqNext :: u32
  dtb :: "AXP_21264_TLB list"
  nextDTB :: nat
  maf :: "AXP_21264_MAF list"
  tbMissOutstanding :: bool
  dtbTag0 :: AXP_MBOX_DTB_TAG
  dtbTag1 :: AXP_MBOX_DTB_TAG
  dtbPte0 :: AXP_MBOX_DTB_PTE
  dtbPte1 :: AXP_MBOX_DTB_PTE
  dtbAltMode :: AXP_MBOX_DTB_ALTMODE
  dtbIs0 :: AXP_MBOX_DTB_IS
  dtbIs1 :: AXP_MBOX_DTB_IS
  dtbAsn0 :: AXP_MBOX_DTB_ASN
  dtbAsn1 :: AXP_MBOX_DTB_ASN
  mmStat :: AXP_MBOX_MM_STAT
  mCtl :: AXP_MBOX_M_CTL
  dcCtl :: AXP_MBOX_DC_CTL
  dcStat :: AXP_MBOX_DC_STAT
  vaCtl :: AXP_EBOX_VA_CTL
  lockFlag :: bool

definition cpu_sized :: "AXP_CONSTS \<Rightarrow> AXP_21264_CPU \<Rightarrow> bool" where
  "cpu_sized K cpu \<longleftrightarrow>
     length (lq cpu) = unat (AXP_MBOX_QUEUE_LEN K) \<and>
     length (sq cpu) = unat (AXP_MBOX_QUEUE_LEN K) \<and>
     length (dCache cpu) = AXP_CACHE_ENTRIES K \<and>
     list_all (\<lambda>row. length row = AXP_2_WAY_CACHE K) (dCache cpu) \<and>
     length (dtag cpu) = AXP_CACHE_ENTRIES K \<and>
     list_all (\<lambda>row. length row = AXP_2_WAY_CACHE K) (dtag cpu) \<and>
     length (dtb cpu) = AXP_TB_LEN K \<and>
     length (maf cpu) = AXP_21264_MAF_LEN K"

section \<open>Queue slot allocation\<close>

text \<open>
  \<^verbatim>\<open>AXP_21264_Mbox_GetLQSlot\<close> and \<^verbatim>\<open>AXP_21264_Mbox_GetSQSlot\<close>: the result is the
  returned slot number together with the CPU after the call.
\<close>

definition AXP_21264_Mbox_GetLQSlot :: "AXP_CONSTS \<Rightarrow> AXP_21264_CPU \<Rightarrow> u32 \<times> AXP_21264_CPU" where
  "AXP_21264_Mbox_GetLQSlot K cpu =
     (let retVal = AXP_MBOX_QUEUE_LEN K in
      if lqNext cpu < AXP_MBOX_QUEUE_LEN K then
        (let retVal = lqNext cpu;
             cpu = cpu\<lparr>lqNext := lqNext cpu + 1\<rparr>;
             cpu = cpu\<lparr>lq := (lq cpu)[unat retVal :=
                      ((lq cpu) ! unat retVal)\<lparr>AXP_MBOX_QUEUE.state := Assigned\<rparr>]\<rparr>
         in (retVal, cpu))
      else (retVal, cpu))"

definition AXP_21264_Mbox_GetSQSlot :: "AXP_CONSTS \<Rightarrow> AXP_21264_CPU \<Rightarrow> u32 \<times> AXP_21264_CPU" where
  "AXP_21264_Mbox_GetSQSlot K cpu =
     (let retVal = AXP_MBOX_QUEUE_LEN K in
      if sqNext cpu < AXP_MBOX_QUEUE_LEN K then
        (let retVal = sqNext cpu;
             cpu = cpu\<lparr>sqNext := sqNext cpu + 1\<rparr>;
             cpu = cpu\<lparr>sq := (sq cpu)[unat retVal :=
                      ((sq cpu) ! unat retVal)\<lparr>AXP_MBOX_QUEUE.state := Assigned\<rparr>]\<rparr>
         in (retVal, cpu))
      else (retVal, cpu))"

section \<open>Initialisation\<close>

text \<open>
  \<^verbatim>\<open>memset(p, 0, n)\<close> on a byte array: the first \<open>n\<close> bytes become zero.
\<close>

definition memset_zero :: "u8 list \<Rightarrow> nat \<Rightarrow> u8 list" where
  "memset_zero bytes n = replicate (min n (length bytes)) 0 @ drop n bytes"

text \<open>
  \<^verbatim>\<open>AXP_21264_Mbox_Init\<close>. Each \<^verbatim>\<open>for (ii = a; ii < b; ii++)\<close> is a \<open>fold\<close> over
  \<open>[a..<b]\<close>, with the bounds the source gives. The result is the returned flag and the
  CPU after the call.
\<close>

definition AXP_21264_Mbox_Init :: "AXP_CONSTS \<Rightarrow> AXP_21264_CPU \<Rightarrow> bool \<times> AXP_21264_CPU" where
  "AXP_21264_Mbox_Init K cpu =
     (let retVal = False;
          cpu = fold (\<lambda>ii cpu. fold (\<lambda>jj cpu.
                  cpu\<lparr>dCache := (dCache cpu)[ii := (dCache cpu ! ii)[jj :=
                    (dCache cpu ! ii ! jj)\<lparr>
                       data := memset_zero (data (dCache cpu ! ii ! jj)) (AXP_DCACHE_DATA_LEN K),
                       AXP_DCACHE_BLK.physTag := 0,
                       AXP_DCACHE_BLK.valid := False,
                       dirty := False,
                       shared := False,
                       modified := False,
                       set_0_1 := False,
                       locked := False,
                       AXP_DCACHE_BLK.state := Invalid\<rparr>]]\<rparr>)
                  [0..<AXP_2_WAY_CACHE K] cpu) [1..<AXP_CACHE_ENTRIES K] cpu;
          cpu = fold (\<lambda>ii cpu. fold (\<lambda>jj cpu.
                  cpu\<lparr>dtag := (dtag cpu)[ii := (dtag cpu ! ii)[jj :=
                    (dtag cpu ! ii ! jj)\<lparr>
                       AXP_DTAG_BLK.physTag := 0,
                       ctagIndex := AXP_CACHE_ENTRIES K,
                       ctagSet := AXP_2_WAY_CACHE K,
                       AXP_DTAG_BLK.valid := False\<rparr>]]\<rparr>)
                  [0..<AXP_2_WAY_CACHE K] cpu) [1..<AXP_CACHE_ENTRIES K] cpu;
          cpu = fold (\<lambda>ii cpu.
                  cpu\<lparr>lq := (lq cpu)[ii := (lq cpu ! ii)\<lparr>
                       qvalue := 0,
                       virtAddress := 0,
                       instr := None,
                       AXP_MBOX_QUEUE.state := QNotInUse,
                       IOflag := False,
                       lockCond := False\<rparr>]\<rparr>)
                  [0..<unat (AXP_MBOX_QUEUE_LEN K)] cpu;
          cpu = cpu\<lparr>lqNext := 0\<rparr>;
          cpu = fold (\<lambda>ii cpu.
                  cpu\<lparr>sq := (sq cpu)[ii := (sq cpu ! ii)\<lparr>
                       qvalue := 0,
                       virtAddress := 0,
                       instr := None,
                       AXP_MBOX_QUEUE.state := QNotInUse,
                       IOflag := False,
                       lockCond := False\<rparr>]\<rparr>)
                  [0..<unat (AXP_MBOX_QUEUE_LEN K)] cpu;
          cpu = cpu\<lparr>sqNext := 0\<rparr>;
          cpu = fold (\<lambda>ii cpu.
                  cpu\<lparr>dtb := (dtb cpu)[ii := (dtb cpu ! ii)\<lparr>
                       virtAddr := 0,
                       physAddr := 0,
                       matchMask := 0,
                       keepMask := 0,
                       AXP_21264_TLB.kre := 0,
                       AXP_21264_TLB.ere := 0,
                       AXP_21264_TLB.sre := 0,
                       AXP_21264_TLB.ure := 0,
                       AXP_21264_TLB.kwe := 0,
                       AXP_21264_TLB.ewe := 0,
                       AXP_21264_TLB.swe := 0,
                       AXP_21264_TLB.uwe := 0,
                       faultOnRead := 0,
                       faultOnWrite := 0,
                       faultOnExecute := 0,
                       AXP_21264_TLB.res_1 := 0,
                       AXP_21264_TLB.asn := 0,
                       AXP_21264_TLB.x_asm := False,
                       AXP_21264_TLB.valid := False\<rparr>]\<rparr>)
                  [0..<AXP_TB_LEN K] cpu;
          cpu = cpu\<lparr>nextDTB := 0\<rparr>;
          cpu = fold (\<lambda>ii cpu.
                  cpu\<lparr>maf := (maf cpu)[ii := (maf cpu ! ii)\<lparr>
                       type := MAFNotInUse,
                       rq := NOPcmd,
                       rsp := NOPsysdc,
                       AXP_21264_MAF.pa := 0,
                       complete := False\<rparr>]\<rparr>)
                  [0..<AXP_21264_MAF_LEN K] cpu;
          cpu = cpu\<lparr>tbMissOutstanding := False\<rparr>;
          cpu = cpu\<lparr>dtbTag0 := (dtbTag0 cpu)\<lparr>
                  AXP_MBOX_DTB_TAG.res_1 := 0, va := 0, AXP_MBOX_DTB_TAG.res_2 := 0\<rparr>\<rparr>;
          cpu = cpu\<lparr>dtbTag1 := (dtbTag1 cpu)\<lparr>
                  AXP_MBOX_DTB_TAG.res_1 := 0, va := 0, AXP_MBOX_DTB_TAG.res_2 := 0\<rparr>\<rparr>;
          cpu = cpu\<lparr>dtbPte0 := (dtbPte0 cpu)\<lparr>
                  AXP_MBOX_DTB_PTE.res_1 := 0,
                  AXP_MBOX_DTB_PTE.pa := 0,
                  AXP_MBOX_DTB_PTE.res_2 := 0,
                  AXP_MBOX_DTB_PTE.uwe := 0,
                  AXP_MBOX_DTB_PTE.swe := 0,
                  AXP_MBOX_DTB_PTE.ewe := 0,
                  AXP_MBOX_DTB_PTE.kwe := 0,
                  AXP_MBOX_DTB_PTE.ure := 0,
                  AXP_MBOX_DTB_PTE.sre := 0,
                  AXP_MBOX_DTB_PTE.ere := 0,
                  AXP_MBOX_DTB_PTE.kre := 0,
                  res_3 := 0,
                  gh := 0,
                  AXP_MBOX_DTB_PTE.x_asm := 0,
                  res_4 := 0,
                  AXP_MBOX_DTB_PTE.fow := 0,
                  AXP_MBOX_DTB_PTE.x_for := 0,
                  res_5 := 0\<rparr>\<rparr>;
          cpu = cpu\<lparr>dtbPte1 := (dtbPte1 cpu)\<lparr>
                  AXP_MBOX_DTB_PTE.res_1 := 0,
                  AXP_MBOX_DTB_PTE.pa := 0,
                  AXP_MBOX_DTB_PTE.res_2 := 0,
                  AXP_MBOX_DTB_PTE.uwe := 0,
                  AXP_MBOX_DTB_PTE.swe := 0,
                  AXP_MBOX_DTB_PTE.ewe := 0,
                  AXP_MBOX_DTB_PTE.kwe := 0,
                  AXP_MBOX_DTB_PTE.ure := 0,
                  AXP_MBOX_DTB_PTE.sre := 0,
                  AXP_MBOX_DTB_PTE.ere := 0,
                  AXP_MBOX_DTB_PTE.kre := 0,
                  res_3 := 0,
                  gh := 0,
                  AXP_MBOX_DTB_PTE.x_asm := 0,
                  res_4 := 0,
                  AXP_MBOX_DTB_PTE.fow := 0,
                  AXP_MBOX_DTB_PTE.x_for := 0,
                  res_5 := 0\<rparr>\<rparr>;
          cpu = cpu\<lparr>dtbAltMode := (dtbAltMode cpu)\<lparr>
                  alt_mode := AXP_MBOX_ALTMODE_KERNEL K, AXP_MBOX_DTB_ALTMODE.res := 0\<rparr>\<rparr>;
          cpu = cpu\<lparr>dtbIs0 := (dtbIs0 cpu)\<lparr>
                  AXP_MBOX_DTB_IS.res_1 := 0, inval_itb := 0, AXP_MBOX_DTB_IS.res_2 := 0\<rparr>\<rparr>;
          cpu = cpu\<lparr>dtbIs1 := (dtbIs1 cpu)\<lparr>
                  AXP_MBOX_DTB_IS.res_1 := 0, inval_itb := 0, AXP_MBOX_DTB_IS.res_2 := 0\<rparr>\<rparr>;
          cpu = cpu\<lparr>dtbAsn0 := (dtbAsn0 cpu)\<lparr>
                  AXP_MBOX_DTB_ASN.res_1 := 0, AXP_MBOX_DTB_ASN.asn := 0,
                  AXP_MBOX_DTB_ASN.res_2 := 0\<rparr>\<rparr>;
          cpu = cpu\<lparr>dtbAsn1 := (dtbAsn1 cpu)\<lparr>
                  AXP_MBOX_DTB_ASN.res_1 := 0, AXP_MBOX_DTB_ASN.asn := 0,
                  AXP_MBOX_DTB_ASN.res_2 := 0\<rparr>\<rparr>;
          cpu = cpu\<lparr>mmStat := (mmStat cpu)\<lparr>
                  AXP_MBOX_MM_STAT.res := 0,
                  dc_tag_perr := 0,
                  opcodes := 0,
                  AXP_MBOX_MM_STAT.fow := 0,
                  AXP_MBOX_MM_STAT.x_for := 0,
                  acv := 0,
                  wr := 0\<rparr>\<rparr>;
          cpu = cpu\<lparr>mCtl := (mCtl cpu)\<lparr>
                  AXP_MBOX_M_CTL.res_1 := 0, spe := 0, AXP_MBOX_M_CTL.res_2 := 0\<rparr>\<rparr>;
          cpu = cpu\<lparr>dcCtl := (dcCtl cpu)\<lparr>
                  dcdat_err_en := 0,
                  dctag_par_en := 0,
                  f_bad_decc := 0,
                  f_bad_tpar := 0,
                  f_hit := 0,
                  set_en := 3\<rparr>\<rparr>;
          cpu = cpu\<lparr>dcStat := (dcStat cpu)\<lparr>
                  AXP_MBOX_DC_STAT.res := 0,
                  seo := 0,
                  ecc_err_ld := 0,
                  ecc_err_st := 0,
                  tperr_p1 := 0,
                  tperr_p1 := 0\<rparr>\<rparr>
      in (retVal, cpu))"

section \<open>Store-conditional instructions of the Ebox\<close>

text \<open>
  \<^verbatim>\<open>AXP_STL_C\<close> and \<^verbatim>\<open>AXP_STQ_C\<close>. The C functions take the CPU and the instruction by
  pointer; the model returns the exception code, the CPU and the instruction after the
  call. \<open>va\<close> and \<open>vaPrime\<close> are the local variables of the source, and the macro
  \<^verbatim>\<open>AXP_BIG_ENDIAN_LONG\<close>, whose definition is not at hand, is the parameter
  \<open>big_endian_long\<close>.
\<close>

definition AXP_STL_C ::
  "(u64 \<Rightarrow> u64) \<Rightarrow> AXP_21264_CPU \<Rightarrow> AXP_INSTRUCTION \<Rightarrow>
     AXP_EXCEPTIONS \<times> AXP_21264_CPU \<times> AXP_INSTRUCTION" where
  "AXP_STL_C big_endian_long cpu ins =
     (let retVal = NoException;
          va = src1v ins + displacement ins;
          vaPrime = va;
          vaPrime = (if b_endian (vaCtl cpu) = 1 then big_endian_long va else vaPrime);
          (vaPrime, ins) =
             (if lockFlag cpu = True
              then (src1v ins, ins\<lparr>destv := 1\<rparr>)
              else (vaPrime, ins\<lparr>destv := 0\<rparr>));
          ins = ins\<lparr>clearLockPending := True\<rparr>;
          ins = ins\<lparr>AXP_INSTRUCTION.state := WaitingRetirement\<rparr>
      in (retVal, cpu, ins))"

definition AXP_STQ_C ::
  "AXP_21264_CPU \<Rightarrow> AXP_INSTRUCTION \<Rightarrow> AXP_EXCEPTIONS \<times> AXP_21264_CPU \<times> AXP_INSTRUCTION" where
  "AXP_STQ_C cpu ins =
     (let retVal = NoException;
          va = src1v ins + displacement ins;
          (va, ins) =
             (if lockFlag cpu = True
              then (src1v ins, ins\<lparr>destv := 1\<rparr>)
              else (va, ins\<lparr>destv := 0\<rparr>));
          ins = ins\<lparr>clearLockPending := True\<rparr>;
          ins = ins\<lparr>AXP_INSTRUCTION.state := WaitingRetirement\<rparr>
      in (retVal, cpu, ins))"

section \<open>Memory references: the state around the CPU\<close>

text \<open>
  The routines that process a load reach three things besides the CPU structure: the
  instruction descriptors that queue entries point to, the memory of the emulator
  process itself (where a C pointer can point), and the routines of the other
  components.
\<close>

text \<open>
  Modelled from the spec: \<^verbatim>\<open>AXP_va2pa\<close>, \<^verbatim>\<open>AXP_Dcache_Status\<close>,
  \<^verbatim>\<open>AXP_21264_Bcache_Status\<close>, \<^verbatim>\<open>AXP_DcacheRead\<close>,
  \<^verbatim>\<open>AXP_21264_CopyBcacheToDcache\<close>, \<^verbatim>\<open>AXP_21264_Add_MAF\<close>,
  \<^verbatim>\<open>AXP_21264_Add_IOWB\<close> and \<^verbatim>\<open>AXP_21264_Ibox_Event\<close> are not among the sources.
  The specification lists them as the operations the Mbox consumes from its environment.
  A call to one of them is recorded, with the arguments the source passes (the CPU and
  the data pointer, which is \<^verbatim>\<open>NULL\<close> in every call here, are left out), at the end of
  the list \<open>calls\<close>. The value a call returns is given by the record \<open>AXP_ENV\<close>, as a
  function of the calls made so far, of the CPU and of the arguments; for
  \<^verbatim>\<open>AXP_va2pa\<close> it is the physical address with the two values stored through its
  pointer arguments, for \<^verbatim>\<open>AXP_DcacheRead\<close> the returned flag with the new content of
  the destination, given its old content. These routines are taken not to write the
  queue entries or the instruction descriptors. The macro \<^verbatim>\<open>AXP_21264_IS_IO_ADDR\<close>
  is a field of \<open>AXP_ENV\<close> as well.
\<close>

datatype AXP_ACCESS = Read | Write

datatype ext_call =
  Call_va2pa u64 u64 bool AXP_ACCESS
  | Call_Dcache_Status u64 u64
  | Call_Bcache_Status u64
  | Call_Add_MAF AXP_MAF_TYPE u64 u8 nat
  | Call_CopyBcacheToDcache u64 u64
  | Call_DcacheRead u64 u64 nat
  | Call_Add_IOWB u64 u8 nat
  | Call_Ibox_Event u32 u64 u64 AXP_OPCODE nat bool bool

record AXP_ENV =
  AXP_va2pa :: "ext_call list \<Rightarrow> AXP_21264_CPU \<Rightarrow> u64 \<Rightarrow> u64 \<Rightarrow> bool \<Rightarrow> AXP_ACCESS \<Rightarrow> u64 \<times> bool \<times> u32"
  AXP_Dcache_Status :: "ext_call list \<Rightarrow> AXP_21264_CPU \<Rightarrow> u64 \<Rightarrow> u64 \<Rightarrow> u8"
  AXP_21264_Bcache_Status :: "ext_call list \<Rightarrow> AXP_21264_CPU \<Rightarrow> u64 \<Rightarrow> u8"
  AXP_DcacheRead :: "ext_call list \<Rightarrow> AXP_21264_CPU \<Rightarrow> u64 \<Rightarrow> u64 \<Rightarrow> nat \<Rightarrow> u64 \<Rightarrow> bool \<times> u64"
  AXP_21264_IS_IO_ADDR :: "u64 \<Rightarrow> bool"

text \<open>
  \<open>instrs\<close> maps the address of an instruction descriptor to the descriptor; \<open>hostmem\<close>
  maps an address of the emulator process to the byte there, if the address is mapped.
\<close>

record AXP_MBOX_WORLD =
  the_cpu :: AXP_21264_CPU
  instrs :: "nat \<rightharpoonup> AXP_INSTRUCTION"
  hostmem :: "u64 \<rightharpoonup> u8"
  calls :: "ext_call list"

text \<open>
  What C leaves undefined is a fault of the model: following a \<^verbatim>\<open>NULL\<close> pointer, an
  index outside an array, a read at an address that holds nothing.
\<close>

datatype host_fault = NullPointer | OutOfBounds | BadAddress

definition deref_instr :: "AXP_MBOX_WORLD \<Rightarrow> nat option \<Rightarrow> host_fault + AXP_INSTRUCTION" where
  "deref_instr w p =
     (case p of
        None \<Rightarrow> Inl NullPointer
      | Some a \<Rightarrow> (case instrs w a of None \<Rightarrow> Inl BadAddress | Some ins \<Rightarrow> Inr ins))"

definition update_instr ::
  "AXP_MBOX_WORLD \<Rightarrow> nat option \<Rightarrow> (AXP_INSTRUCTION \<Rightarrow> AXP_INSTRUCTION) \<Rightarrow> host_fault + AXP_MBOX_WORLD" where
  "update_instr w p f =
     (case p of
        None \<Rightarrow> Inl NullPointer
      | Some a \<Rightarrow>
          (case instrs w a of
             None \<Rightarrow> Inl BadAddress
           | Some ins \<Rightarrow> Inr (w\<lparr>instrs := (instrs w)(a \<mapsto> f ins)\<rparr>)))"

definition update_lq ::
  "AXP_MBOX_WORLD \<Rightarrow> u8 \<Rightarrow> (AXP_MBOX_QUEUE \<Rightarrow> AXP_MBOX_QUEUE) \<Rightarrow> AXP_MBOX_WORLD" where
  "update_lq w entry f =
     w\<lparr>the_cpu := (the_cpu w)\<lparr>lq := (lq (the_cpu w))[unat entry :=
          f (lq (the_cpu w) ! unat entry)]\<rparr>\<rparr>"

definition log_call :: "AXP_MBOX_WORLD \<Rightarrow> ext_call \<Rightarrow> AXP_MBOX_WORLD" where
  "log_call w c = w\<lparr>calls := calls w @ [c]\<rparr>"

text \<open>
  Reading \<open>n\<close> bytes of the process memory at an address, and storing the low \<open>n\<close>
  bytes of an object, on a little-endian host: the byte at the lowest address is the
  least significant one.
\<close>

fun host_read :: "(u64 \<rightharpoonup> u8) \<Rightarrow> u64 \<Rightarrow> nat \<Rightarrow> u64 option" where
  "host_read hm a 0 = Some 0"
| "host_read hm a (Suc n) =
     (case hm a of
        None \<Rightarrow> None
      | Some b \<Rightarrow>
          (case host_read hm (a + 1) n of
             None \<Rightarrow> None
           | Some r \<Rightarrow> Some (ucast b OR push_bit 8 r)))"

definition store_low :: "nat \<Rightarrow> u64 \<Rightarrow> u64 \<Rightarrow> u64" where
  "store_low n old v = (old AND NOT (mask (8 * n))) OR (v AND mask (8 * n))"

section \<open>Store forwarding and cache probing\<close>

text \<open>
  One iteration of the loop over the store queue in \<^verbatim>\<open>AXP_21264_Mbox_TryCaches\<close>, for
  the index \<open>ii\<close>. The pair is \<^verbatim>\<open>olderStore\<close> and \<^verbatim>\<open>nextOlderStore\<close>; the conditions
  are evaluated left to right as C does, so that an instruction pointer is followed only
  when the conjuncts before it hold.
\<close>

definition TryCaches_scan_step ::
  "AXP_MBOX_WORLD \<Rightarrow> AXP_MBOX_QUEUE \<Rightarrow> nat \<Rightarrow> bool \<times> u8 \<Rightarrow> host_fault + (bool \<times> u8)" where
  "TryCaches_scan_step w lqEntry ii acc =
     (case acc of (olderStore, nextOlderStore) \<Rightarrow>
      if \<not> ii < length (sq (the_cpu w)) then Inl OutOfBounds
      else
        let sqe = sq (the_cpu w) ! ii in
        if AXP_MBOX_QUEUE.state sqe = Initial \<or>
           AXP_MBOX_QUEUE.state sqe = SQWritePending \<or>
           AXP_MBOX_QUEUE.state sqe = SQComplete
        then
          if virtAddress lqEntry = virtAddress sqe \<and> len lqEntry \<le> len sqe
          then
            (case deref_instr w (instr lqEntry) of
               Inl e \<Rightarrow> Inl e
             | Inr lins \<Rightarrow>
                 (case deref_instr w (instr sqe) of
                    Inl e \<Rightarrow> Inl e
                  | Inr sins \<Rightarrow>
                      if uniqueID lins < uniqueID sins
                      then
                        if olderStore = True
                        then
                          (if \<not> unat nextOlderStore < length (sq (the_cpu w))
                           then Inl OutOfBounds
                           else
                             (case deref_instr w (instr (sq (the_cpu w) ! unat nextOlderStore)) of
                                Inl e \<Rightarrow> Inl e
                              | Inr nins \<Rightarrow>
                                  if uniqueID sins > uniqueID nins
                                  then Inr (olderStore, of_nat ii)
                                  else Inr (olderStore, nextOlderStore)))
                        else Inr (True, of_nat ii)
                      else Inr (olderStore, nextOlderStore)))
          else Inr (olderStore, nextOlderStore)
        else Inr (olderStore, nextOlderStore))"

fun TryCaches_scan ::
  "AXP_MBOX_WORLD \<Rightarrow> AXP_MBOX_QUEUE \<Rightarrow> nat list \<Rightarrow> bool \<times> u8 \<Rightarrow> host_fault + (bool \<times> u8)" where
  "TryCaches_scan w lqEntry [] acc = Inr acc"
| "TryCaches_scan w lqEntry (ii # iis) acc =
     (case TryCaches_scan_step w lqEntry ii acc of
        Inl e \<Rightarrow> Inl e
      | Inr acc' \<Rightarrow> TryCaches_scan w lqEntry iis acc')"

text \<open>
  The branch of \<^verbatim>\<open>AXP_21264_Mbox_TryCaches\<close> taken when no store was selected: the
  Dcache and Bcache probes.
\<close>

definition TryCaches_probe ::
  "AXP_CONSTS \<Rightarrow> AXP_ENV \<Rightarrow> u8 \<Rightarrow> AXP_MBOX_WORLD \<Rightarrow> host_fault + AXP_MBOX_WORLD" where
  "TryCaches_probe K E entry w =
     (let lqEntry = lq (the_cpu w) ! unat entry;
          DcHit = False;
          cacheStatus = AXP_Dcache_Status E (calls w) (the_cpu w)
                          (virtAddress lqEntry) (physAddress lqEntry);
          w = log_call w (Call_Dcache_Status (virtAddress lqEntry) (physAddress lqEntry));
          (DcHit, w) =
            (if cacheStatus \<noteq> AXP_21264_CACHE_HIT K
             then
               (let cacheStatus = AXP_21264_Bcache_Status E (calls w) (the_cpu w)
                                    (physAddress lqEntry);
                    w = log_call w (Call_Bcache_Status (physAddress lqEntry))
                in if cacheStatus \<noteq> AXP_21264_CACHE_HIT K
                   then (DcHit,
                         log_call w (Call_Add_MAF LDx (physAddress lqEntry) entry (len lqEntry)))
                   else (True,
                         log_call w (Call_CopyBcacheToDcache (virtAddress lqEntry)
                                       (physAddress lqEntry))))
             else (True, w))
      in if DcHit = True
         then
           (case update_instr w (instr lqEntry) (\<lambda>ins. ins\<lparr>destv := 0\<rparr>) of
              Inl e \<Rightarrow> Inl e
            | Inr w \<Rightarrow>
                (case deref_instr w (instr lqEntry) of
                   Inl e \<Rightarrow> Inl e
                 | Inr ins \<Rightarrow>
                     (let (retVal, d) = AXP_DcacheRead E (calls w) (the_cpu w)
                                          (virtAddress lqEntry) (physAddress lqEntry)
                                          (len lqEntry) (destv ins);
                          w = log_call w (Call_DcacheRead (virtAddress lqEntry)
                                            (physAddress lqEntry) (len lqEntry))
                      in case update_instr w (instr lqEntry) (\<lambda>ins. ins\<lparr>destv := d\<rparr>) of
                           Inl e \<Rightarrow> Inl e
                         | Inr w \<Rightarrow>
                             Inr (update_lq w entry
                                    (\<lambda>q. q\<lparr>AXP_MBOX_QUEUE.state := LQComplete\<rparr>)))))
         else Inr w)"

text \<open>
  The branch taken when a store was selected. For a length of 1 the source reads the
  byte at the address of the store's value field; for 2, 4 and 8 it converts the value
  itself to a pointer and reads the process memory there.
\<close>

definition TryCaches_forward ::
  "u8 \<Rightarrow> u8 \<Rightarrow> AXP_MBOX_WORLD \<Rightarrow> host_fault + AXP_MBOX_WORLD" where
  "TryCaches_forward entry nextOlderStore w =
     (let lqEntry = lq (the_cpu w) ! unat entry in
      case update_instr w (instr lqEntry) (\<lambda>ins. ins\<lparr>destv := 0\<rparr>) of
        Inl e \<Rightarrow> Inl e
      | Inr w \<Rightarrow>
          (case
             (if len lqEntry = 1 \<or> len lqEntry = 2 \<or> len lqEntry = 4 \<or> len lqEntry = 8
              then
                (if \<not> unat nextOlderStore < length (sq (the_cpu w)) then Inl OutOfBounds
                 else
                   let v = qvalue (sq (the_cpu w) ! unat nextOlderStore) in
                   if len lqEntry = 1
                   then update_instr w (instr lqEntry)
                          (\<lambda>ins. ins\<lparr>destv := store_low 1 (destv ins) v\<rparr>)
                   else
                     (case host_read (hostmem w) v (len lqEntry) of
                        None \<Rightarrow> Inl BadAddress
                      | Some m \<Rightarrow>
                          update_instr w (instr lqEntry)
                            (\<lambda>ins. ins\<lparr>destv := store_low (len lqEntry) (destv ins) m\<rparr>)))
              else Inr w)
           of
             Inl e \<Rightarrow> Inl e
           | Inr w \<Rightarrow>
               Inr (update_lq w entry (\<lambda>q. q\<lparr>AXP_MBOX_QUEUE.state := LQComplete\<rparr>))))"

text \<open>\<^verbatim>\<open>AXP_21264_Mbox_TryCaches\<close>: the scan, then one of the two branches.\<close>

definition AXP_21264_Mbox_TryCaches ::
  "AXP_CONSTS \<Rightarrow> AXP_ENV \<Rightarrow> u8 \<Rightarrow> AXP_MBOX_WORLD \<Rightarrow> host_fault + AXP_MBOX_WORLD" where
  "AXP_21264_Mbox_TryCaches K E entry w =
     (if \<not> unat entry < length (lq (the_cpu w)) then Inl OutOfBounds
      else
        let lqEntry = lq (the_cpu w) ! unat entry in
        case TryCaches_scan w lqEntry [0..<unat (AXP_MBOX_QUEUE_LEN K)] (False, 0) of
          Inl e \<Rightarrow> Inl e
        | Inr (olderStore, nextOlderStore) \<Rightarrow>
            if olderStore = False
            then TryCaches_probe K E entry w
            else TryCaches_forward entry nextOlderStore w)"

section \<open>A new load queue entry\<close>

text \<open>
  \<^verbatim>\<open>AXP_21264_Mbox_LQ_Init\<close>. The condition of the \<^verbatim>\<open>HW_LD\<close> case is the assignment
  \<^verbatim>\<open>len_stall = AXP_HW_LD_LONGWORD\<close> that the source has there: it stores the constant
  and is true when the constant is not zero (the field is taken to be wide enough for
  the constant). An opcode that the \<^verbatim>\<open>switch\<close> does not name leaves the length as it is.
\<close>

definition LQ_Init_len ::
  "AXP_CONSTS \<Rightarrow> u8 \<Rightarrow> AXP_MBOX_WORLD \<Rightarrow> host_fault + AXP_MBOX_WORLD" where
  "LQ_Init_len K entry w =
     (let lqEntry = lq (the_cpu w) ! unat entry in
      case deref_instr w (instr lqEntry) of
        Inl e \<Rightarrow> Inl e
      | Inr ins \<Rightarrow>
          (case opcode ins of
             LDBU \<Rightarrow> Inr (update_lq w entry (\<lambda>q. q\<lparr>len := 1\<rparr>))
           | LDW_U \<Rightarrow> Inr (update_lq w entry (\<lambda>q. q\<lparr>len := 2\<rparr>))
           | LDF \<Rightarrow> Inr (update_lq w entry (\<lambda>q. q\<lparr>len := 4\<rparr>))
           | LDS \<Rightarrow> Inr (update_lq w entry (\<lambda>q. q\<lparr>len := 4\<rparr>))
           | LDL \<Rightarrow> Inr (update_lq w entry (\<lambda>q. q\<lparr>len := 4\<rparr>))
           | LDL_L \<Rightarrow> Inr (update_lq w entry (\<lambda>q. q\<lparr>len := 4\<rparr>))
           | LDA \<Rightarrow> Inr (update_lq w entry (\<lambda>q. q\<lparr>len := 8\<rparr>))
           | LDAH \<Rightarrow> Inr (update_lq w entry (\<lambda>q. q\<lparr>len := 8\<rparr>))
           | LDQ_U \<Rightarrow> Inr (update_lq w entry (\<lambda>q. q\<lparr>len := 8\<rparr>))
           | LDG \<Rightarrow> Inr (update_lq w entry (\<lambda>q. q\<lparr>len := 8\<rparr>))
           | LDT \<Rightarrow> Inr (update_lq w entry (\<lambda>q. q\<lparr>len := 8\<rparr>))
           | LDQ \<Rightarrow> Inr (update_lq w entry (\<lambda>q. q\<lparr>len := 8\<rparr>))
           | LDQ_L \<Rightarrow> Inr (update_lq w entry (\<lambda>q. q\<lparr>len := 8\<rparr>))
           | HW_LD \<Rightarrow>
               (case update_instr w (instr lqEntry)
                       (\<lambda>ins. ins\<lparr>len_stall := AXP_HW_LD_LONGWORD K\<rparr>) of
                  Inl e \<Rightarrow> Inl e
                | Inr w \<Rightarrow>
                    if AXP_HW_LD_LONGWORD K \<noteq> 0
                    then Inr (update_lq w entry (\<lambda>q. q\<lparr>len := 4\<rparr>))
                    else Inr (update_lq w entry (\<lambda>q. q\<lparr>len := 8\<rparr>)))
           | OTHER_OPCODE n \<Rightarrow> Inr w))"

definition AXP_21264_Mbox_LQ_Init ::
  "AXP_CONSTS \<Rightarrow> AXP_ENV \<Rightarrow> u8 \<Rightarrow> AXP_MBOX_WORLD \<Rightarrow> host_fault + AXP_MBOX_WORLD" where
  "AXP_21264_Mbox_LQ_Init K E entry w =
     (if \<not> unat entry < length (lq (the_cpu w)) then Inl OutOfBounds
      else
        case LQ_Init_len K entry w of
          Inl e \<Rightarrow> Inl e
        | Inr w \<Rightarrow>
            (let lqEntry = lq (the_cpu w) ! unat entry in
             case deref_instr w (instr lqEntry) of
               Inl e \<Rightarrow> Inl e
             | Inr ins \<Rightarrow>
                 (let (p, x_asm, fault) =
                        AXP_va2pa E (calls w) (the_cpu w) (virtAddress lqEntry) (pc ins) True Read;
                      w = log_call w (Call_va2pa (virtAddress lqEntry) (pc ins) True Read);
                      w = update_lq w entry (\<lambda>q. q\<lparr>physAddress := p\<rparr>);
                      lqEntry = lq (the_cpu w) ! unat entry
                  in if physAddress lqEntry \<noteq> 0
                     then
                       (let w = update_lq w entry
                                  (\<lambda>q. q\<lparr>IOflag := AXP_21264_IS_IO_ADDR E (physAddress q)\<rparr>);
                            w = update_lq w entry
                                  (\<lambda>q. q\<lparr>AXP_MBOX_QUEUE.state := LQReadPending\<rparr>);
                            lqEntry = lq (the_cpu w) ! unat entry
                        in if IOflag lqEntry = False
                           then AXP_21264_Mbox_TryCaches K E entry w
                           else Inr (log_call w
                                  (Call_Add_IOWB (physAddress lqEntry) entry (len lqEntry))))
                     else
                       Inr (log_call w
                              (Call_Ibox_Event fault (pc ins) (virtAddress lqEntry)
                                 (opcode ins) (aDest ins) False False)))))"

section \<open>Auxiliary definitions for the proofs\<close>

subsection \<open>What the loops of the initialisation store\<close>

text \<open>
  The element that each loop of \<^verbatim>\<open>AXP_21264_Mbox_Init\<close> leaves at an index it visits,
  as a function of the element found there.
\<close>

definition dCache_reset :: "AXP_CONSTS \<Rightarrow> AXP_DCACHE_BLK \<Rightarrow> AXP_DCACHE_BLK" where
  "dCache_reset K blk =
     blk\<lparr>data := memset_zero (data blk) (AXP_DCACHE_DATA_LEN K),
         AXP_DCACHE_BLK.physTag := 0,
         AXP_DCACHE_BLK.valid := False,
         dirty := False,
         shared := False,
         modified := False,
         set_0_1 := False,
         locked := False,
         AXP_DCACHE_BLK.state := Invalid\<rparr>"

definition queue_reset :: "AXP_MBOX_QUEUE \<Rightarrow> AXP_MBOX_QUEUE" where
  "queue_reset q =
     q\<lparr>qvalue := 0, virtAddress := 0, instr := None,
       AXP_MBOX_QUEUE.state := QNotInUse, IOflag := False, lockCond := False\<rparr>"

definition dtb_reset :: "AXP_21264_TLB \<Rightarrow> AXP_21264_TLB" where
  "dtb_reset t =
     t\<lparr>virtAddr := 0,
       physAddr := 0,
       matchMask := 0,
       keepMask := 0,
       AXP_21264_TLB.kre := 0,
       AXP_21264_TLB.ere := 0,
       AXP_21264_TLB.sre := 0,
       AXP_21264_TLB.ure := 0,
       AXP_21264_TLB.kwe := 0,
       AXP_21264_TLB.ewe := 0,
       AXP_21264_TLB.swe := 0,
       AXP_21264_TLB.uwe := 0,
       faultOnRead := 0,
       faultOnWrite := 0,
       faultOnExecute := 0,
       AXP_21264_TLB.res_1 := 0,
       AXP_21264_TLB.asn := 0,
       AXP_21264_TLB.x_asm := False,
       AXP_21264_TLB.valid := False\<rparr>"

definition maf_reset :: "AXP_21264_MAF \<Rightarrow> AXP_21264_MAF" where
  "maf_reset m =
     m\<lparr>type := MAFNotInUse, rq := NOPcmd, rsp := NOPsysdc,
       AXP_21264_MAF.pa := 0, complete := False\<rparr>"

subsection \<open>What the scan of the store queue accepts\<close>

text \<open>
  The test that the loop of \<^verbatim>\<open>AXP_21264_Mbox_TryCaches\<close> applies to the store queue
  entry \<open>ii\<close> for the load \<open>lqEntry\<close>, as a predicate, and the \<open>uniqueID\<close> of the
  instruction of a store queue entry.
\<close>

definition scan_accepts :: "AXP_MBOX_WORLD \<Rightarrow> AXP_MBOX_QUEUE \<Rightarrow> nat \<Rightarrow> bool" where
  "scan_accepts w lqEntry ii \<longleftrightarrow>
     (let sqe = sq (the_cpu w) ! ii in
      (AXP_MBOX_QUEUE.state sqe = Initial \<or>
       AXP_MBOX_QUEUE.state sqe = SQWritePending \<or>
       AXP_MBOX_QUEUE.state sqe = SQComplete) \<and>
      virtAddress lqEntry = virtAddress sqe \<and>
      len lqEntry \<le> len sqe \<and>
      (case deref_instr w (instr lqEntry) of
         Inl e \<Rightarrow> False
       | Inr lins \<Rightarrow>
           (case deref_instr w (instr sqe) of
              Inl e \<Rightarrow> False
            | Inr sins \<Rightarrow> uniqueID lins < uniqueID sins)))"

definition store_uniqueID :: "AXP_MBOX_WORLD \<Rightarrow> nat \<Rightarrow> nat" where
  "store_uniqueID w ii =
     (case deref_instr w (instr (sq (the_cpu w) ! ii)) of
        Inl e \<Rightarrow> 0
      | Inr sins \<Rightarrow> uniqueID sins)"

text \<open>
  The invariant of the loop, over the set \<open>D\<close> of indices visited so far: either no
  visited entry was accepted, or \<^verbatim>\<open>nextOlderStore\<close> is a visited, accepted entry whose
  \<open>uniqueID\<close> is greatest among the visited, accepted ones.
\<close>

definition scan_inv :: "AXP_MBOX_WORLD \<Rightarrow> AXP_MBOX_QUEUE \<Rightarrow> nat set \<Rightarrow> bool \<times> u8 \<Rightarrow> bool" where
  "scan_inv w lqEntry D acc \<longleftrightarrow>
     (case acc of (olderStore, nextOlderStore) \<Rightarrow>
        if olderStore
        then unat nextOlderStore \<in> D \<and> scan_accepts w lqEntry (unat nextOlderStore) \<and>
             (\<forall>j\<in>D. scan_accepts w lqEntry j \<longrightarrow>
                store_uniqueID w j \<le> store_uniqueID w (unat nextOlderStore))
        else (\<forall>j\<in>D. \<not> scan_accepts w lqEntry j))"

subsection \<open>Sequences of allocations\<close>

datatype alloc_op = AllocLQ | AllocSQ

fun run_allocs :: "AXP_CONSTS \<Rightarrow> alloc_op list \<Rightarrow> AXP_21264_CPU \<Rightarrow> AXP_21264_CPU" where
  "run_allocs K [] cpu = cpu"
| "run_allocs K (AllocLQ # ops) cpu = run_allocs K ops (snd (AXP_21264_Mbox_GetLQSlot K cpu))"
| "run_allocs K (AllocSQ # ops) cpu = run_allocs K ops (snd (AXP_21264_Mbox_GetSQSlot K cpu))"

section \<open>Example configuration and states\<close>

text \<open>
  A small configuration (three queue slots, two cache sets of two ways) and states over
  it, on which the routines are run below.
\<close>

definition ex_K :: AXP_CONSTS where
  "ex_K = \<lparr>AXP_MBOX_QUEUE_LEN = 3, AXP_CACHE_ENTRIES = 2, AXP_2_WAY_CACHE = 2,
           AXP_DCACHE_DATA_LEN = 4, AXP_TB_LEN = 2, AXP_21264_MAF_LEN = 1,
           AXP_MBOX_ALTMODE_KERNEL = 0, AXP_21264_CACHE_HIT = 1, AXP_HW_LD_LONGWORD = 1\<rparr>"

definition ex_queue_entry :: AXP_MBOX_QUEUE where
  "ex_queue_entry =
     \<lparr>AXP_MBOX_QUEUE.qvalue = 0,
      AXP_MBOX_QUEUE.virtAddress = 0,
      AXP_MBOX_QUEUE.physAddress = 0,
      AXP_MBOX_QUEUE.len = 0,
      AXP_MBOX_QUEUE.instr = None,
      AXP_MBOX_QUEUE.state = QNotInUse,
      AXP_MBOX_QUEUE.IOflag = False,
      AXP_MBOX_QUEUE.lockCond = False\<rparr>"

definition ex_blk :: AXP_DCACHE_BLK where
  "ex_blk =
     \<lparr>AXP_DCACHE_BLK.data = [1, 2, 3, 4],
      AXP_DCACHE_BLK.physTag = 5,
      AXP_DCACHE_BLK.valid = True,
      AXP_DCACHE_BLK.dirty = True,
      AXP_DCACHE_BLK.shared = False,
      AXP_DCACHE_BLK.modified = True,
      AXP_DCACHE_BLK.set_0_1 = False,
      AXP_DCACHE_BLK.locked = False,
      AXP_DCACHE_BLK.state = OTHER_CACHE_ST 1\<rparr>"

definition ex_dtag_blk :: AXP_DTAG_BLK where
  "ex_dtag_blk =
     \<lparr>AXP_DTAG_BLK.physTag = 5,
      AXP_DTAG_BLK.ctagIndex = 0,
      AXP_DTAG_BLK.ctagSet = 0,
      AXP_DTAG_BLK.valid = True\<rparr>"

definition ex_tlb :: AXP_21264_TLB where
  "ex_tlb =
     \<lparr>AXP_21264_TLB.virtAddr = 8192,
      AXP_21264_TLB.physAddr = 16384,
      AXP_21264_TLB.matchMask = 0,
      AXP_21264_TLB.keepMask = 0,
      AXP_21264_TLB.kre = 1,
      AXP_21264_TLB.ere = 0,
      AXP_21264_TLB.sre = 0,
      AXP_21264_TLB.ure = 0,
      AXP_21264_TLB.kwe = 1,
      AXP_21264_TLB.ewe = 0,
      AXP_21264_TLB.swe = 0,
      AXP_21264_TLB.uwe = 0,
      AXP_21264_TLB.faultOnRead = 0,
      AXP_21264_TLB.faultOnWrite = 0,
      AXP_21264_TLB.faultOnExecute = 0,
      AXP_21264_TLB.res_1 = 0,
      AXP_21264_TLB.asn = 0,
      AXP_21264_TLB.x_asm = False,
      AXP_21264_TLB.valid = True\<rparr>"

definition ex_maf :: AXP_21264_MAF where
  "ex_maf =
     \<lparr>AXP_21264_MAF.type = LDx,
      AXP_21264_MAF.rq = NOPcmd,
      AXP_21264_MAF.rsp = NOPsysdc,
      AXP_21264_MAF.pa = 64,
      AXP_21264_MAF.complete = False\<rparr>"

definition ex_dtb_tag :: AXP_MBOX_DTB_TAG where
  "ex_dtb_tag =
     \<lparr>AXP_MBOX_DTB_TAG.res_1 = 0, AXP_MBOX_DTB_TAG.va = 0, AXP_MBOX_DTB_TAG.res_2 = 0\<rparr>"

definition ex_pte :: AXP_MBOX_DTB_PTE where
  "ex_pte =
     \<lparr>AXP_MBOX_DTB_PTE.res_1 = 0,
      AXP_MBOX_DTB_PTE.pa = 0,
      AXP_MBOX_DTB_PTE.res_2 = 0,
      AXP_MBOX_DTB_PTE.uwe = 0,
      AXP_MBOX_DTB_PTE.swe = 0,
      AXP_MBOX_DTB_PTE.ewe = 0,
      AXP_MBOX_DTB_PTE.kwe = 0,
      AXP_MBOX_DTB_PTE.ure = 0,
      AXP_MBOX_DTB_PTE.sre = 0,
      AXP_MBOX_DTB_PTE.ere = 0,
      AXP_MBOX_DTB_PTE.kre = 0,
      AXP_MBOX_DTB_PTE.res_3 = 0,
      AXP_MBOX_DTB_PTE.gh = 0,
      AXP_MBOX_DTB_PTE.x_asm = 0,
      AXP_MBOX_DTB_PTE.res_4 = 0,
      AXP_MBOX_DTB_PTE.fow = 0,
      AXP_MBOX_DTB_PTE.x_for = 0,
      AXP_MBOX_DTB_PTE.res_5 = 0\<rparr>"

definition ex_dtb_is :: AXP_MBOX_DTB_IS where
  "ex_dtb_is =
     \<lparr>AXP_MBOX_DTB_IS.res_1 = 0, AXP_MBOX_DTB_IS.inval_itb = 0,
      AXP_MBOX_DTB_IS.res_2 = 0\<rparr>"

definition ex_dtb_asn :: AXP_MBOX_DTB_ASN where
  "ex_dtb_asn =
     \<lparr>AXP_MBOX_DTB_ASN.res_1 = 0, AXP_MBOX_DTB_ASN.asn = 0, AXP_MBOX_DTB_ASN.res_2 = 0\<rparr>"

definition ex_mm_stat :: AXP_MBOX_MM_STAT where
  "ex_mm_stat =
     \<lparr>AXP_MBOX_MM_STAT.res = 0,
      AXP_MBOX_MM_STAT.dc_tag_perr = 0,
      AXP_MBOX_MM_STAT.opcodes = 0,
      AXP_MBOX_MM_STAT.fow = 0,
      AXP_MBOX_MM_STAT.x_for = 0,
      AXP_MBOX_MM_STAT.acv = 0,
      AXP_MBOX_MM_STAT.wr = 0\<rparr>"

definition ex_dc_ctl :: AXP_MBOX_DC_CTL where
  "ex_dc_ctl =
     \<lparr>AXP_MBOX_DC_CTL.dcdat_err_en = 0,
      AXP_MBOX_DC_CTL.dctag_par_en = 0,
      AXP_MBOX_DC_CTL.f_bad_decc = 0,
      AXP_MBOX_DC_CTL.f_bad_tpar = 0,
      AXP_MBOX_DC_CTL.f_hit = 0,
      AXP_MBOX_DC_CTL.set_en = 0\<rparr>"

definition ex_dc_stat :: AXP_MBOX_DC_STAT where
  "ex_dc_stat =
     \<lparr>AXP_MBOX_DC_STAT.res = 0,
      AXP_MBOX_DC_STAT.seo = 0,
      AXP_MBOX_DC_STAT.ecc_err_ld = 0,
      AXP_MBOX_DC_STAT.ecc_err_st = 0,
      AXP_MBOX_DC_STAT.tperr_p1 = 0\<rparr>"

definition ex_cpu :: AXP_21264_CPU where
  "ex_cpu =
     \<lparr>dCache = [[ex_blk, ex_blk], [ex_blk, ex_blk]],
      dtag = [[ex_dtag_blk, ex_dtag_blk], [ex_dtag_blk, ex_dtag_blk]],
      lq = [ex_queue_entry, ex_queue_entry, ex_queue_entry],
      lqNext = 0,
      sq = [ex_queue_entry, ex_queue_entry, ex_queue_entry],
      sqNext = 0,
      dtb = [ex_tlb, ex_tlb],
      nextDTB = 1,
      maf = [ex_maf],
      tbMissOutstanding = True,
      dtbTag0 = ex_dtb_tag,
      dtbTag1 = ex_dtb_tag,
      dtbPte0 = ex_pte,
      dtbPte1 = ex_pte,
      dtbAltMode = \<lparr>AXP_MBOX_DTB_ALTMODE.alt_mode = 3, AXP_MBOX_DTB_ALTMODE.res = 0\<rparr>,
      dtbIs0 = ex_dtb_is,
      dtbIs1 = ex_dtb_is,
      dtbAsn0 = ex_dtb_asn,
      dtbAsn1 = ex_dtb_asn,
      mmStat = ex_mm_stat,
      mCtl = \<lparr>AXP_MBOX_M_CTL.res_1 = 0, AXP_MBOX_M_CTL.spe = 0, AXP_MBOX_M_CTL.res_2 = 0\<rparr>,
      dcCtl = ex_dc_ctl,
      dcStat = ex_dc_stat,
      vaCtl = \<lparr>b_endian = 0\<rparr>,
      lockFlag = False\<rparr>"

definition ex_ins :: AXP_INSTRUCTION where
  "ex_ins =
     \<lparr>AXP_INSTRUCTION.uniqueID = 0,
      AXP_INSTRUCTION.opcode = LDQ,
      AXP_INSTRUCTION.pc = 4096,
      AXP_INSTRUCTION.aDest = 3,
      AXP_INSTRUCTION.src1v = 291,
      AXP_INSTRUCTION.displacement = 8,
      AXP_INSTRUCTION.destv = 85,
      AXP_INSTRUCTION.len_stall = 0,
      AXP_INSTRUCTION.lockFlagPending = False,
      AXP_INSTRUCTION.lockPhysAddrPending = 0,
      AXP_INSTRUCTION.lockVirtAddrPending = 0,
      AXP_INSTRUCTION.clearLockPending = False,
      AXP_INSTRUCTION.state = Executing\<rparr>"

definition ex_big_endian_long :: "u64 \<Rightarrow> u64" where
  "ex_big_endian_long a = a XOR 4"

text \<open>
  Environments and states for the routines that process a load. In \<open>ex_env\<close> the
  translation fails for the virtual address 0 (physical address 0, fault code 7) and is
  the identity elsewhere, the Dcache hits at the virtual address \<open>0x1000\<close> only, the
  Bcache hits at the physical address \<open>0x5000\<close> only, a Dcache read delivers
  \<open>0xEE\<close>, and no address is an I/O address.
\<close>

definition ex_env :: AXP_ENV where
  "ex_env =
     \<lparr>AXP_va2pa = (\<lambda>cs c a p useDTB acc. (a, False, if a = 0 then 7 else 0)),
      AXP_Dcache_Status = (\<lambda>cs c a p. if a = 0x1000 then 1 else 0),
      AXP_21264_Bcache_Status = (\<lambda>cs c p. if p = 0x5000 then 1 else 0),
      AXP_DcacheRead = (\<lambda>cs c a p n d. (True, 0xEE)),
      AXP_21264_IS_IO_ADDR = (\<lambda>p. False)\<rparr>"

text \<open>
  A pending load of \<open>n\<close> bytes at an address, whose instruction is the descriptor at
  address 0, and a store of \<open>n\<close> bytes of a value at an address, in a given state, whose
  instruction is the descriptor at address \<open>p\<close>.
\<close>

definition ex_load :: "u64 \<Rightarrow> nat \<Rightarrow> AXP_MBOX_QUEUE" where
  "ex_load a n =
     ex_queue_entry\<lparr>virtAddress := a, physAddress := a, len := n, instr := Some 0,
       AXP_MBOX_QUEUE.state := LQReadPending\<rparr>"

definition ex_store :: "u64 \<Rightarrow> nat \<Rightarrow> u64 \<Rightarrow> nat \<Rightarrow> AXP_MBOX_QUEUE_STATE \<Rightarrow> AXP_MBOX_QUEUE" where
  "ex_store a n v p st =
     ex_queue_entry\<lparr>qvalue := v, virtAddress := a, physAddress := a, len := n,
       instr := Some p, AXP_MBOX_QUEUE.state := st\<rparr>"

text \<open>
  A load instruction with a given \<open>uniqueID\<close> and opcode, and a store instruction with
  a given \<open>uniqueID\<close> (its opcode, 14, is none of the load opcodes).
\<close>

definition ex_load_ins :: "nat \<Rightarrow> AXP_OPCODE \<Rightarrow> AXP_INSTRUCTION" where
  "ex_load_ins u opc = ex_ins\<lparr>uniqueID := u, opcode := opc\<rparr>"

definition ex_store_ins :: "nat \<Rightarrow> AXP_INSTRUCTION" where
  "ex_store_ins u = ex_ins\<lparr>uniqueID := u, opcode := OTHER_OPCODE 14\<rparr>"

text \<open>
  The state with one load in slot 0 of the load queue, a given store queue, the given
  instruction descriptors at the addresses 0, 1, 2, ... (the first is the load's), a
  given process memory and no call made yet.
\<close>

definition ex_world ::
  "AXP_MBOX_QUEUE \<Rightarrow> AXP_MBOX_QUEUE list \<Rightarrow> AXP_INSTRUCTION list \<Rightarrow> (u64 \<rightharpoonup> u8) \<Rightarrow>
     AXP_MBOX_WORLD" where
  "ex_world l stores descs hm =
     \<lparr>the_cpu = ex_cpu\<lparr>lq := [l, ex_queue_entry, ex_queue_entry], sq := stores\<rparr>,
      instrs = (\<lambda>a. if a < length descs then Some (descs ! a) else None),
      hostmem = hm,
      calls = []\<rparr>"

text \<open>
  A process memory that holds the byte \<open>0xAA\<close> at the eight addresses from
  \<open>0x1122334455667788\<close> on and nothing elsewhere.
\<close>

definition ex_hostmem :: "u64 \<rightharpoonup> u8" where
  "ex_hostmem a = (if a - 0x1122334455667788 < 8 then Some 0xAA else None)"

text \<open>
  What is observed of the result of a routine: the state of a load queue slot, the
  \<open>destv\<close> of the instruction descriptor at an address, and the calls made.
\<close>

definition lq_state_after :: "host_fault + AXP_MBOX_WORLD \<Rightarrow> nat \<Rightarrow> AXP_MBOX_QUEUE_STATE option" where
  "lq_state_after r i =
     (case r of Inl e \<Rightarrow> None | Inr w \<Rightarrow> Some (AXP_MBOX_QUEUE.state (lq (the_cpu w) ! i)))"

definition destv_after :: "host_fault + AXP_MBOX_WORLD \<Rightarrow> nat \<Rightarrow> u64 option" where
  "destv_after r a = (case r of Inl e \<Rightarrow> None | Inr w \<Rightarrow> map_option destv (instrs w a))"

definition calls_after :: "host_fault + AXP_MBOX_WORLD \<Rightarrow> ext_call list option" where
  "calls_after r = (case r of Inl e \<Rightarrow> None | Inr w \<Rightarrow> Some (calls w))"

text \<open>A load just published by \<^verbatim>\<open>AXP_21264_Mbox_ReadMem\<close>: state \<open>Initial\<close>.\<close>

definition ex_new_load :: "u64 \<Rightarrow> AXP_MBOX_QUEUE" where
  "ex_new_load a =
     ex_queue_entry\<lparr>virtAddress := a, instr := Some 0, AXP_MBOX_QUEUE.state := Initial\<rparr>"

section \<open>Properties of slot allocation\<close>

lemma GetLQSlot_free:
  assumes "lqNext cpu < AXP_MBOX_QUEUE_LEN K"
  shows "AXP_21264_Mbox_GetLQSlot K cpu =
           (lqNext cpu,
            cpu\<lparr>lqNext := lqNext cpu + 1,
                lq := (lq cpu)[unat (lqNext cpu) :=
                         (lq cpu ! unat (lqNext cpu))\<lparr>AXP_MBOX_QUEUE.state := Assigned\<rparr>]\<rparr>)"
  using assms by (simp add: AXP_21264_Mbox_GetLQSlot_def Let_def)

lemma GetLQSlot_full:
  assumes "\<not> lqNext cpu < AXP_MBOX_QUEUE_LEN K"
  shows "AXP_21264_Mbox_GetLQSlot K cpu = (AXP_MBOX_QUEUE_LEN K, cpu)"
  using assms by (simp add: AXP_21264_Mbox_GetLQSlot_def Let_def)

lemma GetSQSlot_free:
  assumes "sqNext cpu < AXP_MBOX_QUEUE_LEN K"
  shows "AXP_21264_Mbox_GetSQSlot K cpu =
           (sqNext cpu,
            cpu\<lparr>sqNext := sqNext cpu + 1,
                sq := (sq cpu)[unat (sqNext cpu) :=
                         (sq cpu ! unat (sqNext cpu))\<lparr>AXP_MBOX_QUEUE.state := Assigned\<rparr>]\<rparr>)"
  using assms by (simp add: AXP_21264_Mbox_GetSQSlot_def Let_def)

lemma GetSQSlot_full:
  assumes "\<not> sqNext cpu < AXP_MBOX_QUEUE_LEN K"
  shows "AXP_21264_Mbox_GetSQSlot K cpu = (AXP_MBOX_QUEUE_LEN K, cpu)"
  using assms by (simp add: AXP_21264_Mbox_GetSQSlot_def Let_def)

lemma u32_inc_below:
  fixes i m :: u32
  assumes "i < m"
  shows "unat (i + 1) = Suc (unat i)" and "i + 1 \<le> m" and "i < i + 1"
proof -
  from assms have "unat i < unat m" by (simp add: word_less_nat_alt)
  moreover have "unat m < 2 ^ 32" using unsigned_less [of m, where ?'a = nat] by simp
  ultimately have "unat i + 1 < 2 ^ 32" by simp
  then show u: "unat (i + 1) = Suc (unat i)"
    by (simp add: unat_word_ariths)
  show "i + 1 \<le> m" using assms by (rule inc_le)
  show "i < i + 1" using u by (simp add: word_less_nat_alt)
qed

text \<open>
  Claim C6. On a CPU whose queues have \<^verbatim>\<open>AXP_MBOX_QUEUE_LEN\<close> slots and whose next
  indices do not exceed that length, \<^verbatim>\<open>AXP_21264_Mbox_GetLQSlot\<close> and
  \<^verbatim>\<open>AXP_21264_Mbox_GetSQSlot\<close> each return the sentinel \<^verbatim>\<open>AXP_MBOX_QUEUE_LEN\<close> exactly
  when the queue is full (the next index equals the length), and otherwise return a slot
  number below the length, namely the old next index; that slot is then in state
  \<open>Assigned\<close> and the next index has grown by one.
\<close>

theorem alloc_slot_result:
  assumes "cpu_sized K cpu"
    and "lqNext cpu \<le> AXP_MBOX_QUEUE_LEN K" and "sqNext cpu \<le> AXP_MBOX_QUEUE_LEN K"
  shows "(case AXP_21264_Mbox_GetLQSlot K cpu of (r, cpu') \<Rightarrow>
            (r = AXP_MBOX_QUEUE_LEN K \<longleftrightarrow> lqNext cpu = AXP_MBOX_QUEUE_LEN K) \<and>
            (r \<noteq> AXP_MBOX_QUEUE_LEN K \<longrightarrow>
               r < AXP_MBOX_QUEUE_LEN K \<and> r = lqNext cpu \<and> unat r < length (lq cpu') \<and>
               AXP_MBOX_QUEUE.state (lq cpu' ! unat r) = Assigned \<and>
               lqNext cpu' = lqNext cpu + 1 \<and> unat (lqNext cpu') = unat (lqNext cpu) + 1)) \<and>
         (case AXP_21264_Mbox_GetSQSlot K cpu of (r, cpu') \<Rightarrow>
            (r = AXP_MBOX_QUEUE_LEN K \<longleftrightarrow> sqNext cpu = AXP_MBOX_QUEUE_LEN K) \<and>
            (r \<noteq> AXP_MBOX_QUEUE_LEN K \<longrightarrow>
               r < AXP_MBOX_QUEUE_LEN K \<and> r = sqNext cpu \<and> unat r < length (sq cpu') \<and>
               AXP_MBOX_QUEUE.state (sq cpu' ! unat r) = Assigned \<and>
               sqNext cpu' = sqNext cpu + 1 \<and> unat (sqNext cpu') = unat (sqNext cpu) + 1))"
proof -
  have len: "length (lq cpu) = unat (AXP_MBOX_QUEUE_LEN K)"
            "length (sq cpu) = unat (AXP_MBOX_QUEUE_LEN K)"
    using assms(1) by (simp_all add: cpu_sized_def)
  have L: "case AXP_21264_Mbox_GetLQSlot K cpu of (r, cpu') \<Rightarrow>
            (r = AXP_MBOX_QUEUE_LEN K \<longleftrightarrow> lqNext cpu = AXP_MBOX_QUEUE_LEN K) \<and>
            (r \<noteq> AXP_MBOX_QUEUE_LEN K \<longrightarrow>
               r < AXP_MBOX_QUEUE_LEN K \<and> r = lqNext cpu \<and> unat r < length (lq cpu') \<and>
               AXP_MBOX_QUEUE.state (lq cpu' ! unat r) = Assigned \<and>
               lqNext cpu' = lqNext cpu + 1 \<and> unat (lqNext cpu') = unat (lqNext cpu) + 1)"
  proof (cases "lqNext cpu < AXP_MBOX_QUEUE_LEN K")
    case True
    then have "unat (lqNext cpu) < length (lq cpu)"
      by (simp add: len word_less_nat_alt)
    with True u32_inc_below(1) [OF True] show ?thesis
      by (simp add: GetLQSlot_free)
  next
    case False
    with assms(2) have "lqNext cpu = AXP_MBOX_QUEUE_LEN K" by simp
    with False show ?thesis by (simp add: GetLQSlot_full)
  qed
  have S: "case AXP_21264_Mbox_GetSQSlot K cpu of (r, cpu') \<Rightarrow>
            (r = AXP_MBOX_QUEUE_LEN K \<longleftrightarrow> sqNext cpu = AXP_MBOX_QUEUE_LEN K) \<and>
            (r \<noteq> AXP_MBOX_QUEUE_LEN K \<longrightarrow>
               r < AXP_MBOX_QUEUE_LEN K \<and> r = sqNext cpu \<and> unat r < length (sq cpu') \<and>
               AXP_MBOX_QUEUE.state (sq cpu' ! unat r) = Assigned \<and>
               sqNext cpu' = sqNext cpu + 1 \<and> unat (sqNext cpu') = unat (sqNext cpu) + 1)"
  proof (cases "sqNext cpu < AXP_MBOX_QUEUE_LEN K")
    case True
    then have "unat (sqNext cpu) < length (sq cpu)"
      by (simp add: len word_less_nat_alt)
    with True u32_inc_below(1) [OF True] show ?thesis
      by (simp add: GetSQSlot_free)
  next
    case False
    with assms(3) have "sqNext cpu = AXP_MBOX_QUEUE_LEN K" by simp
    with False show ?thesis by (simp add: GetSQSlot_full)
  qed
  from L S show ?thesis by simp
qed

lemma ex_cpu_sized: "cpu_sized ex_K ex_cpu"
  by (simp add: cpu_sized_def ex_K_def ex_cpu_def)

lemma ex_cpu_full_sized: "cpu_sized ex_K (ex_cpu\<lparr>lqNext := 3, sqNext := 3\<rparr>)"
  by (simp add: cpu_sized_def ex_K_def ex_cpu_def)

theorem alloc_slot_result_witness:
  "cpu_sized ex_K ex_cpu \<and>
   fst (AXP_21264_Mbox_GetLQSlot ex_K ex_cpu) = 0 \<and>
   AXP_MBOX_QUEUE.state (lq (snd (AXP_21264_Mbox_GetLQSlot ex_K ex_cpu)) ! 0) = Assigned \<and>
   lqNext (snd (AXP_21264_Mbox_GetLQSlot ex_K ex_cpu)) = 1 \<and>
   fst (AXP_21264_Mbox_GetSQSlot ex_K ex_cpu) = 0 \<and>
   AXP_MBOX_QUEUE.state (sq (snd (AXP_21264_Mbox_GetSQSlot ex_K ex_cpu)) ! 0) = Assigned \<and>
   sqNext (snd (AXP_21264_Mbox_GetSQSlot ex_K ex_cpu)) = 1 \<and>
   fst (AXP_21264_Mbox_GetLQSlot ex_K (ex_cpu\<lparr>lqNext := 3, sqNext := 3\<rparr>)) = 3 \<and>
   fst (AXP_21264_Mbox_GetSQSlot ex_K (ex_cpu\<lparr>lqNext := 3, sqNext := 3\<rparr>)) = 3"
proof -
  have a: "lqNext ex_cpu \<le> AXP_MBOX_QUEUE_LEN ex_K" "sqNext ex_cpu \<le> AXP_MBOX_QUEUE_LEN ex_K"
    by (simp_all add: ex_K_def ex_cpu_def)
  have b: "lqNext (ex_cpu\<lparr>lqNext := 3, sqNext := 3\<rparr>) \<le> AXP_MBOX_QUEUE_LEN ex_K"
          "sqNext (ex_cpu\<lparr>lqNext := 3, sqNext := 3\<rparr>) \<le> AXP_MBOX_QUEUE_LEN ex_K"
    by (simp_all add: ex_K_def)
  have k: "AXP_MBOX_QUEUE_LEN ex_K = 3" "lqNext ex_cpu = 0" "sqNext ex_cpu = 0"
    by (simp_all add: ex_K_def ex_cpu_def)
  from alloc_slot_result [OF ex_cpu_sized a] alloc_slot_result [OF ex_cpu_full_sized b]
  show ?thesis
    by (auto simp add: k ex_cpu_sized case_prod_beta)
qed

text \<open>
  Claim C10. When a queue is full, its allocator returns the sentinel and the CPU after
  the call is the CPU before it: neither the next index nor any queue entry is written.
\<close>

theorem alloc_full_atomic:
  "(lqNext cpu = AXP_MBOX_QUEUE_LEN K \<longrightarrow>
      AXP_21264_Mbox_GetLQSlot K cpu = (AXP_MBOX_QUEUE_LEN K, cpu)) \<and>
   (sqNext cpu = AXP_MBOX_QUEUE_LEN K \<longrightarrow>
      AXP_21264_Mbox_GetSQSlot K cpu = (AXP_MBOX_QUEUE_LEN K, cpu))"
  by (simp add: GetLQSlot_full GetSQSlot_full)

theorem alloc_full_atomic_witness:
  "lqNext (ex_cpu\<lparr>lqNext := 3, sqNext := 3\<rparr>) = AXP_MBOX_QUEUE_LEN ex_K \<and>
   sqNext (ex_cpu\<lparr>lqNext := 3, sqNext := 3\<rparr>) = AXP_MBOX_QUEUE_LEN ex_K \<and>
   AXP_21264_Mbox_GetLQSlot ex_K (ex_cpu\<lparr>lqNext := 3, sqNext := 3\<rparr>) =
     (3, ex_cpu\<lparr>lqNext := 3, sqNext := 3\<rparr>) \<and>
   AXP_21264_Mbox_GetSQSlot ex_K (ex_cpu\<lparr>lqNext := 3, sqNext := 3\<rparr>) =
     (3, ex_cpu\<lparr>lqNext := 3, sqNext := 3\<rparr>)"
  using alloc_full_atomic [of "ex_cpu\<lparr>lqNext := 3, sqNext := 3\<rparr>" ex_K]
  by (simp add: ex_K_def)

section \<open>Properties of the initialisation\<close>

subsection \<open>Loops that update one array of the CPU\<close>

lemma fold_dCache:
  "fold (\<lambda>i c. c\<lparr>dCache := G i c\<rparr>) xs c =
     c\<lparr>dCache := fold (\<lambda>i l. G i (c\<lparr>dCache := l\<rparr>)) xs (dCache c)\<rparr>"
  by (induction xs arbitrary: c) simp_all

lemma fold_dtag:
  "fold (\<lambda>i c. c\<lparr>dtag := G i c\<rparr>) xs c =
     c\<lparr>dtag := fold (\<lambda>i l. G i (c\<lparr>dtag := l\<rparr>)) xs (dtag c)\<rparr>"
  by (induction xs arbitrary: c) simp_all

lemma fold_lq:
  "fold (\<lambda>i c. c\<lparr>lq := G i c\<rparr>) xs c =
     c\<lparr>lq := fold (\<lambda>i l. G i (c\<lparr>lq := l\<rparr>)) xs (lq c)\<rparr>"
  by (induction xs arbitrary: c) simp_all

lemma fold_sq:
  "fold (\<lambda>i c. c\<lparr>sq := G i c\<rparr>) xs c =
     c\<lparr>sq := fold (\<lambda>i l. G i (c\<lparr>sq := l\<rparr>)) xs (sq c)\<rparr>"
  by (induction xs arbitrary: c) simp_all

lemma fold_dtb:
  "fold (\<lambda>i c. c\<lparr>dtb := G i c\<rparr>) xs c =
     c\<lparr>dtb := fold (\<lambda>i l. G i (c\<lparr>dtb := l\<rparr>)) xs (dtb c)\<rparr>"
  by (induction xs arbitrary: c) simp_all

lemma fold_maf:
  "fold (\<lambda>i c. c\<lparr>maf := G i c\<rparr>) xs c =
     c\<lparr>maf := fold (\<lambda>i l. G i (c\<lparr>maf := l\<rparr>)) xs (maf c)\<rparr>"
  by (induction xs arbitrary: c) simp_all

lemmas fold_field = fold_dCache fold_dtag fold_lq fold_sq fold_dtb fold_maf

subsection \<open>Loops that update the elements of a list in place\<close>

lemma fold_update_length [simp]:
  "length (fold (\<lambda>i l. l[i := H i l]) xs l) = length l"
  by (induction xs arbitrary: l) simp_all

lemma fold_update_other:
  "k \<notin> set xs \<Longrightarrow> fold (\<lambda>i l. l[i := H i l]) xs l ! k = l ! k"
  by (induction xs arbitrary: l) auto

lemma fold_nth_frame:
  assumes "\<And>i l. i \<in> set xs \<Longrightarrow> f i l ! k = l ! k"
  shows "fold f xs l ! k = l ! k"
  using assms by (induction xs arbitrary: l) simp_all

lemma fold_update_nth:
  assumes "distinct xs" and "k \<in> set xs" and "k < length l"
  shows "fold (\<lambda>i l. l[i := f (l ! i)]) xs l ! k = f (l ! k)"
  using assms
proof (induction xs arbitrary: l)
  case Nil
  then show ?case by simp
next
  case (Cons x xs)
  show ?case
  proof (cases "k = x")
    case True
    with Cons.prems have "k \<notin> set xs" by simp
    with True Cons.prems show ?thesis by (simp add: fold_update_other)
  next
    case False
    with Cons show ?thesis by simp
  qed
qed

lemma fold_row_update:
  "fold (\<lambda>j l. l[i := (l ! i)[j := f (l ! i ! j)]]) ys l =
     l[i := fold (\<lambda>j r. r[j := f (r ! j)]) ys (l ! i)]"
proof (induction ys arbitrary: l)
  case Nil
  then show ?case by simp
next
  case (Cons y ys)
  show ?case
  proof (cases "i < length l")
    case True
    then show ?thesis by (simp add: Cons.IH)
  next
    case False
    then show ?thesis by (simp add: Cons.IH list_update_beyond)
  qed
qed

subsection \<open>The arrays and registers after \<^verbatim>\<open>AXP_21264_Mbox_Init\<close>\<close>

lemma Init_fields:
  "lqNext (snd (AXP_21264_Mbox_Init K cpu)) = 0"
  "sqNext (snd (AXP_21264_Mbox_Init K cpu)) = 0"
  "set_en (dcCtl (snd (AXP_21264_Mbox_Init K cpu))) = 3"
  "alt_mode (dtbAltMode (snd (AXP_21264_Mbox_Init K cpu))) = AXP_MBOX_ALTMODE_KERNEL K"
  "fst (AXP_21264_Mbox_Init K cpu) = False"
  by (simp_all add: AXP_21264_Mbox_Init_def Let_def fold_field)

lemma Init_dCache:
  "dCache (snd (AXP_21264_Mbox_Init K cpu)) =
     fold (\<lambda>ii l. l[ii := fold (\<lambda>jj r. r[jj := dCache_reset K (r ! jj)])
                              [0..<AXP_2_WAY_CACHE K] (l ! ii)])
       [Suc 0..<AXP_CACHE_ENTRIES K] (dCache cpu)"
  by (simp add: AXP_21264_Mbox_Init_def Let_def fold_field dCache_reset_def [symmetric]
        fold_row_update)

lemma Init_lq:
  "lq (snd (AXP_21264_Mbox_Init K cpu)) =
     fold (\<lambda>ii l. l[ii := queue_reset (l ! ii)]) [0..<unat (AXP_MBOX_QUEUE_LEN K)] (lq cpu)"
  by (simp add: AXP_21264_Mbox_Init_def Let_def fold_field queue_reset_def [symmetric])

lemma Init_sq:
  "sq (snd (AXP_21264_Mbox_Init K cpu)) =
     fold (\<lambda>ii l. l[ii := queue_reset (l ! ii)]) [0..<unat (AXP_MBOX_QUEUE_LEN K)] (sq cpu)"
  by (simp add: AXP_21264_Mbox_Init_def Let_def fold_field queue_reset_def [symmetric])

lemma Init_dtb:
  "dtb (snd (AXP_21264_Mbox_Init K cpu)) =
     fold (\<lambda>ii l. l[ii := dtb_reset (l ! ii)]) [0..<AXP_TB_LEN K] (dtb cpu)"
  by (simp add: AXP_21264_Mbox_Init_def Let_def fold_field dtb_reset_def [symmetric])

lemma Init_maf:
  "maf (snd (AXP_21264_Mbox_Init K cpu)) =
     fold (\<lambda>ii l. l[ii := maf_reset (l ! ii)]) [0..<AXP_21264_MAF_LEN K] (maf cpu)"
  by (simp add: AXP_21264_Mbox_Init_def Let_def fold_field maf_reset_def [symmetric])

lemma Init_dCache_row0:
  "dCache (snd (AXP_21264_Mbox_Init K cpu)) ! 0 = dCache cpu ! 0"
  unfolding Init_dCache by (rule fold_nth_frame) auto

lemma Init_dCache_rows:
  assumes "cpu_sized K cpu" and "1 \<le> i" and "i < AXP_CACHE_ENTRIES K" and "j < AXP_2_WAY_CACHE K"
  shows "dCache (snd (AXP_21264_Mbox_Init K cpu)) ! i ! j = dCache_reset K (dCache cpu ! i ! j)"
proof -
  have n: "i < length (dCache cpu)" using assms by (simp add: cpu_sized_def)
  then have "dCache cpu ! i \<in> set (dCache cpu)" by simp
  with assms(1) have w: "length (dCache cpu ! i) = AXP_2_WAY_CACHE K"
    by (simp add: cpu_sized_def list_all_iff)
  have "dCache (snd (AXP_21264_Mbox_Init K cpu)) ! i =
          fold (\<lambda>jj r. r[jj := dCache_reset K (r ! jj)]) [0..<AXP_2_WAY_CACHE K] (dCache cpu ! i)"
    unfolding Init_dCache
    using assms(2,3) n
    by (subst fold_update_nth [where f = "\<lambda>r. fold (\<lambda>jj r. r[jj := dCache_reset K (r ! jj)])
            [0..<AXP_2_WAY_CACHE K] r"]) simp_all
  then show ?thesis
    using assms(4) w by (simp add: fold_update_nth)
qed

lemma Init_queues:
  assumes "cpu_sized K cpu" and "i < unat (AXP_MBOX_QUEUE_LEN K)"
  shows "lq (snd (AXP_21264_Mbox_Init K cpu)) ! i = queue_reset (lq cpu ! i)"
    and "sq (snd (AXP_21264_Mbox_Init K cpu)) ! i = queue_reset (sq cpu ! i)"
  using assms by (simp_all add: Init_lq Init_sq fold_update_nth cpu_sized_def)

lemma Init_dtb_maf:
  assumes "cpu_sized K cpu"
  shows "i < AXP_TB_LEN K \<Longrightarrow> dtb (snd (AXP_21264_Mbox_Init K cpu)) ! i = dtb_reset (dtb cpu ! i)"
    and "i < AXP_21264_MAF_LEN K \<Longrightarrow>
           maf (snd (AXP_21264_Mbox_Init K cpu)) ! i = maf_reset (maf cpu ! i)"
  using assms by (simp_all add: Init_dtb Init_maf fold_update_nth cpu_sized_def)

text \<open>
  What the initialisation establishes: both next indices are zero, every queue slot is
  \<open>QNotInUse\<close>, every translation buffer entry is invalid, every miss address file
  slot is \<open>MAFNotInUse\<close>, \<open>set_en\<close> is 3 and the alternate mode is kernel mode. The
  Dcache blocks of the sets 1 and above are zeroed and \<open>Invalid\<close>; the loop over the
  Dcache starts at index 1, so set 0 is left as it was.
\<close>

lemma Mbox_Init_establishes:
  assumes "cpu_sized K cpu"
  shows "lqNext (snd (AXP_21264_Mbox_Init K cpu)) = 0"
    and "sqNext (snd (AXP_21264_Mbox_Init K cpu)) = 0"
    and "i < unat (AXP_MBOX_QUEUE_LEN K) \<Longrightarrow>
           AXP_MBOX_QUEUE.state (lq (snd (AXP_21264_Mbox_Init K cpu)) ! i) = QNotInUse"
    and "i < unat (AXP_MBOX_QUEUE_LEN K) \<Longrightarrow>
           AXP_MBOX_QUEUE.state (sq (snd (AXP_21264_Mbox_Init K cpu)) ! i) = QNotInUse"
    and "i < AXP_TB_LEN K \<Longrightarrow>
           AXP_21264_TLB.valid (dtb (snd (AXP_21264_Mbox_Init K cpu)) ! i) = False"
    and "i < AXP_21264_MAF_LEN K \<Longrightarrow>
           type (maf (snd (AXP_21264_Mbox_Init K cpu)) ! i) = MAFNotInUse"
    and "set_en (dcCtl (snd (AXP_21264_Mbox_Init K cpu))) = 3"
    and "alt_mode (dtbAltMode (snd (AXP_21264_Mbox_Init K cpu))) = AXP_MBOX_ALTMODE_KERNEL K"
    and "1 \<le> i \<Longrightarrow> i < AXP_CACHE_ENTRIES K \<Longrightarrow> j < AXP_2_WAY_CACHE K \<Longrightarrow>
           AXP_DCACHE_BLK.state (dCache (snd (AXP_21264_Mbox_Init K cpu)) ! i ! j) = Invalid \<and>
           AXP_DCACHE_BLK.valid (dCache (snd (AXP_21264_Mbox_Init K cpu)) ! i ! j) = False \<and>
           data (dCache (snd (AXP_21264_Mbox_Init K cpu)) ! i ! j) =
             memset_zero (data (dCache cpu ! i ! j)) (AXP_DCACHE_DATA_LEN K)"
    and "dCache (snd (AXP_21264_Mbox_Init K cpu)) ! 0 = dCache cpu ! 0"
  using assms
  by (simp_all add: Init_fields Init_queues Init_dtb_maf Init_dCache_rows Init_dCache_row0
        queue_reset_def dtb_reset_def maf_reset_def dCache_reset_def)

text \<open>
  Claim C8 says that \<^verbatim>\<open>AXP_21264_Mbox_Init\<close> zeroes every Dcache line, for every set
  index and both ways, and marks it \<open>Invalid\<close>. On the example CPU, whose Dcache blocks
  are all valid and hold the bytes 1, 2, 3, 4, the two blocks of set 0 are the same after
  the initialisation, still valid and not \<open>Invalid\<close>, while those of set 1 are reset.
\<close>

theorem Mbox_Init_skips_first_dCache_set:
  "cpu_sized ex_K ex_cpu \<and>
   dCache (snd (AXP_21264_Mbox_Init ex_K ex_cpu)) ! 0 ! 0 = ex_blk \<and>
   dCache (snd (AXP_21264_Mbox_Init ex_K ex_cpu)) ! 0 ! 1 = ex_blk \<and>
   AXP_DCACHE_BLK.valid (dCache (snd (AXP_21264_Mbox_Init ex_K ex_cpu)) ! 0 ! 0) = True \<and>
   AXP_DCACHE_BLK.state (dCache (snd (AXP_21264_Mbox_Init ex_K ex_cpu)) ! 0 ! 0) = OTHER_CACHE_ST 1 \<and>
   data (dCache (snd (AXP_21264_Mbox_Init ex_K ex_cpu)) ! 0 ! 0) = [1, 2, 3, 4] \<and>
   AXP_DCACHE_BLK.valid (dCache (snd (AXP_21264_Mbox_Init ex_K ex_cpu)) ! 1 ! 0) = False \<and>
   AXP_DCACHE_BLK.state (dCache (snd (AXP_21264_Mbox_Init ex_K ex_cpu)) ! 1 ! 0) = Invalid \<and>
   data (dCache (snd (AXP_21264_Mbox_Init ex_K ex_cpu)) ! 1 ! 0) = [0, 0, 0, 0]"
proof -
  have r0: "dCache (snd (AXP_21264_Mbox_Init ex_K ex_cpu)) ! 0 = [ex_blk, ex_blk]"
    by (simp add: Init_dCache_row0) (simp add: ex_cpu_def)
  have k: "AXP_CACHE_ENTRIES ex_K = 2" "AXP_2_WAY_CACHE ex_K = 2" "AXP_DCACHE_DATA_LEN ex_K = 4"
    by (simp_all add: ex_K_def)
  have "dCache ex_cpu ! Suc 0 ! 0 = ex_blk"
    by (simp add: ex_cpu_def)
  with Init_dCache_rows [OF ex_cpu_sized, of "Suc 0" 0]
  have r1: "dCache (snd (AXP_21264_Mbox_Init ex_K ex_cpu)) ! Suc 0 ! 0 = dCache_reset ex_K ex_blk"
    by (simp add: k)
  show ?thesis
    by (simp add: r0 r1 ex_cpu_sized ex_blk_def dCache_reset_def memset_zero_def k)
qed

section \<open>The next indices between resets\<close>

lemma GetLQSlot_next:
  "lqNext cpu \<le> lqNext (snd (AXP_21264_Mbox_GetLQSlot K cpu))"
  "sqNext (snd (AXP_21264_Mbox_GetLQSlot K cpu)) = sqNext cpu"
  "lqNext cpu \<le> AXP_MBOX_QUEUE_LEN K \<Longrightarrow>
     lqNext (snd (AXP_21264_Mbox_GetLQSlot K cpu)) \<le> AXP_MBOX_QUEUE_LEN K"
  by (cases "lqNext cpu < AXP_MBOX_QUEUE_LEN K";
      simp add: GetLQSlot_free GetLQSlot_full u32_inc_below less_imp_le)+

lemma GetSQSlot_next:
  "sqNext cpu \<le> sqNext (snd (AXP_21264_Mbox_GetSQSlot K cpu))"
  "lqNext (snd (AXP_21264_Mbox_GetSQSlot K cpu)) = lqNext cpu"
  "sqNext cpu \<le> AXP_MBOX_QUEUE_LEN K \<Longrightarrow>
     sqNext (snd (AXP_21264_Mbox_GetSQSlot K cpu)) \<le> AXP_MBOX_QUEUE_LEN K"
  by (cases "sqNext cpu < AXP_MBOX_QUEUE_LEN K";
      simp add: GetSQSlot_free GetSQSlot_full u32_inc_below less_imp_le)+

lemma run_allocs_mono:
  "lqNext cpu \<le> lqNext (run_allocs K ops cpu) \<and> sqNext cpu \<le> sqNext (run_allocs K ops cpu)"
proof (induction K ops cpu rule: run_allocs.induct)
  case (1 K cpu)
  show ?case by simp
next
  case (2 K ops cpu)
  with GetLQSlot_next(1,2) [where cpu = cpu and K = K] show ?case by (auto elim: order_trans)
next
  case (3 K ops cpu)
  with GetSQSlot_next(1,2) [where cpu = cpu and K = K] show ?case by (auto elim: order_trans)
qed

lemma run_allocs_bounded:
  assumes "lqNext cpu \<le> AXP_MBOX_QUEUE_LEN K" and "sqNext cpu \<le> AXP_MBOX_QUEUE_LEN K"
  shows "lqNext (run_allocs K ops cpu) \<le> AXP_MBOX_QUEUE_LEN K \<and>
         sqNext (run_allocs K ops cpu) \<le> AXP_MBOX_QUEUE_LEN K"
  using assms
proof (induction K ops cpu rule: run_allocs.induct)
  case (1 K cpu)
  then show ?case by simp
next
  case (2 K ops cpu)
  then show ?case by (simp add: GetLQSlot_next)
next
  case (3 K ops cpu)
  then show ?case by (simp add: GetSQSlot_next)
qed

text \<open>
  Claim C7. \<^verbatim>\<open>AXP_21264_Mbox_Init\<close> sets \<open>lqNext\<close> and \<open>sqNext\<close> to zero. After any
  sequence \<open>ops\<close> of slot allocations from there, neither exceeds
  \<^verbatim>\<open>AXP_MBOX_QUEUE_LEN\<close>, and any further sequence \<open>ops2\<close> of allocations leaves each
  at least as large as it was.
\<close>

theorem next_index_monotone_bounded:
  "lqNext (snd (AXP_21264_Mbox_Init K cpu)) = 0 \<and>
   sqNext (snd (AXP_21264_Mbox_Init K cpu)) = 0 \<and>
   (let c = run_allocs K ops (snd (AXP_21264_Mbox_Init K cpu)) in
      lqNext c \<le> AXP_MBOX_QUEUE_LEN K \<and> sqNext c \<le> AXP_MBOX_QUEUE_LEN K \<and>
      lqNext c \<le> lqNext (run_allocs K ops2 c) \<and> sqNext c \<le> sqNext (run_allocs K ops2 c))"
  using run_allocs_bounded [of "snd (AXP_21264_Mbox_Init K cpu)" K ops]
        run_allocs_mono [of "run_allocs K ops (snd (AXP_21264_Mbox_Init K cpu))" K ops2]
  by (simp add: Init_fields Let_def)

theorem next_index_monotone_bounded_witness:
  "lqNext (snd (AXP_21264_Mbox_Init ex_K (ex_cpu\<lparr>lqNext := 2, sqNext := 3\<rparr>))) = 0 \<and>
   sqNext (snd (AXP_21264_Mbox_Init ex_K (ex_cpu\<lparr>lqNext := 2, sqNext := 3\<rparr>))) = 0 \<and>
   lqNext (run_allocs ex_K [AllocLQ, AllocSQ, AllocLQ]
             (snd (AXP_21264_Mbox_Init ex_K (ex_cpu\<lparr>lqNext := 2, sqNext := 3\<rparr>))))
     \<le> AXP_MBOX_QUEUE_LEN ex_K \<and>
   lqNext (run_allocs ex_K [AllocLQ, AllocSQ, AllocLQ]
             (snd (AXP_21264_Mbox_Init ex_K (ex_cpu\<lparr>lqNext := 2, sqNext := 3\<rparr>))))
     \<le> lqNext (run_allocs ex_K [AllocLQ, AllocLQ]
          (run_allocs ex_K [AllocLQ, AllocSQ, AllocLQ]
             (snd (AXP_21264_Mbox_Init ex_K (ex_cpu\<lparr>lqNext := 2, sqNext := 3\<rparr>)))))"
  using next_index_monotone_bounded [of ex_K "ex_cpu\<lparr>lqNext := 2, sqNext := 3\<rparr>"
          "[AllocLQ, AllocSQ, AllocLQ]" "[AllocLQ, AllocLQ]"]
  by (simp add: Let_def)

section \<open>Properties of the store-conditional instructions\<close>

text \<open>
  Claim C9 says that a store-conditional with the lock flag set performs the store. On
  the example CPU with the lock flag set, \<^verbatim>\<open>AXP_STL_C\<close> and \<^verbatim>\<open>AXP_STQ_C\<close> write 1 to
  \<open>destv\<close> and leave the CPU, with its store queue and Dcache, as it was: the source
  assigns the data to the local variable that held the address.
\<close>

theorem store_conditional_stores_nothing:
  "lockFlag (ex_cpu\<lparr>lockFlag := True\<rparr>) = True \<and>
   fst (snd (AXP_STL_C ex_big_endian_long (ex_cpu\<lparr>lockFlag := True\<rparr>) ex_ins)) =
     ex_cpu\<lparr>lockFlag := True\<rparr> \<and>
   fst (snd (AXP_STQ_C (ex_cpu\<lparr>lockFlag := True\<rparr>) ex_ins)) = ex_cpu\<lparr>lockFlag := True\<rparr> \<and>
   destv (snd (snd (AXP_STL_C ex_big_endian_long (ex_cpu\<lparr>lockFlag := True\<rparr>) ex_ins))) = 1 \<and>
   destv (snd (snd (AXP_STQ_C (ex_cpu\<lparr>lockFlag := True\<rparr>) ex_ins))) = 1"
  by (simp add: AXP_STL_C_def AXP_STQ_C_def Let_def)

text \<open>
  Claim C9, amended. \<^verbatim>\<open>AXP_STL_C\<close> and \<^verbatim>\<open>AXP_STQ_C\<close> write 1 to \<open>destv\<close> if the lock
  flag of the CPU is set and 0 otherwise; in both cases they set \<open>clearLockPending\<close>,
  move the instruction to \<open>WaitingRetirement\<close>, return \<open>NoException\<close> and change
  nothing else: the CPU is returned as it was given.
\<close>

theorem store_conditional_result:
  "AXP_STL_C f cpu ins =
     (NoException, cpu,
      ins\<lparr>destv := (if lockFlag cpu then 1 else 0), clearLockPending := True,
          AXP_INSTRUCTION.state := WaitingRetirement\<rparr>) \<and>
   AXP_STQ_C cpu ins =
     (NoException, cpu,
      ins\<lparr>destv := (if lockFlag cpu then 1 else 0), clearLockPending := True,
          AXP_INSTRUCTION.state := WaitingRetirement\<rparr>)"
  by (simp add: AXP_STL_C_def AXP_STQ_C_def Let_def)

theorem store_conditional_result_witness:
  "AXP_STL_C ex_big_endian_long (ex_cpu\<lparr>lockFlag := True\<rparr>) ex_ins =
     (NoException, ex_cpu\<lparr>lockFlag := True\<rparr>,
      ex_ins\<lparr>destv := 1, clearLockPending := True,
          AXP_INSTRUCTION.state := WaitingRetirement\<rparr>) \<and>
   AXP_STQ_C ex_cpu ex_ins =
     (NoException, ex_cpu,
      ex_ins\<lparr>destv := 0, clearLockPending := True,
          AXP_INSTRUCTION.state := WaitingRetirement\<rparr>)"
  using store_conditional_result [of ex_big_endian_long "ex_cpu\<lparr>lockFlag := True\<rparr>" ex_ins]
        store_conditional_result [of ex_big_endian_long ex_cpu ex_ins]
  by (simp add: ex_cpu_def)

section \<open>Properties of the load processing routines\<close>

subsection \<open>The state operations\<close>

lemma log_call_simps [simp]:
  "calls (log_call w c) = calls w @ [c]"
  "the_cpu (log_call w c) = the_cpu w"
  "instrs (log_call w c) = instrs w"
  "hostmem (log_call w c) = hostmem w"
  by (simp_all add: log_call_def)

lemma update_lq_simps [simp]:
  "calls (update_lq w entry f) = calls w"
  "instrs (update_lq w entry f) = instrs w"
  "hostmem (update_lq w entry f) = hostmem w"
  "sq (the_cpu (update_lq w entry f)) = sq (the_cpu w)"
  "lq (the_cpu (update_lq w entry f)) =
     (lq (the_cpu w))[unat entry := f (lq (the_cpu w) ! unat entry)]"
  by (simp_all add: update_lq_def)

lemma deref_instr_Some:
  "p = Some a \<Longrightarrow> instrs w a = Some ins \<Longrightarrow> deref_instr w p = Inr ins"
  by (simp add: deref_instr_def)

lemma deref_instr_Inr:
  "deref_instr w p = Inr ins \<longleftrightarrow> (\<exists>a. p = Some a \<and> instrs w a = Some ins)"
  by (auto simp add: deref_instr_def split: option.splits)

lemma deref_instr_cong:
  "instrs w' = instrs w \<Longrightarrow> deref_instr w' p = deref_instr w p"
  by (simp add: deref_instr_def split: option.splits)

lemma update_instr_Some:
  "p = Some a \<Longrightarrow> instrs w a = Some ins \<Longrightarrow>
     update_instr w p f = Inr (w\<lparr>instrs := (instrs w)(a \<mapsto> f ins)\<rparr>)"
  by (simp add: update_instr_def)

subsection \<open>The two branches of \<^verbatim>\<open>AXP_21264_Mbox_TryCaches\<close>\<close>

lemma TryCaches_forwarded:
  assumes "unat entry < length (lq (the_cpu w))"
    and "TryCaches_scan w (lq (the_cpu w) ! unat entry) [0..<unat (AXP_MBOX_QUEUE_LEN K)] (False, 0)
           = Inr (True, n)"
  shows "AXP_21264_Mbox_TryCaches K E entry w = TryCaches_forward entry n w"
  using assms by (simp add: AXP_21264_Mbox_TryCaches_def)

lemma TryCaches_probed:
  assumes "unat entry < length (lq (the_cpu w))"
    and "TryCaches_scan w (lq (the_cpu w) ! unat entry) [0..<unat (AXP_MBOX_QUEUE_LEN K)] (False, 0)
           = Inr (False, n)"
  shows "AXP_21264_Mbox_TryCaches K E entry w = TryCaches_probe K E entry w"
  using assms by (simp add: AXP_21264_Mbox_TryCaches_def)

lemma probe_miss_miss:
  assumes "AXP_Dcache_Status E (calls w) (the_cpu w) (virtAddress (lq (the_cpu w) ! unat entry))
             (physAddress (lq (the_cpu w) ! unat entry)) \<noteq> AXP_21264_CACHE_HIT K"
    and "AXP_21264_Bcache_Status E
           (calls w @ [Call_Dcache_Status (virtAddress (lq (the_cpu w) ! unat entry))
                         (physAddress (lq (the_cpu w) ! unat entry))])
           (the_cpu w) (physAddress (lq (the_cpu w) ! unat entry)) \<noteq> AXP_21264_CACHE_HIT K"
  shows "TryCaches_probe K E entry w =
           Inr (w\<lparr>calls := calls w @
                  [Call_Dcache_Status (virtAddress (lq (the_cpu w) ! unat entry))
                     (physAddress (lq (the_cpu w) ! unat entry)),
                   Call_Bcache_Status (physAddress (lq (the_cpu w) ! unat entry)),
                   Call_Add_MAF LDx (physAddress (lq (the_cpu w) ! unat entry)) entry
                     (len (lq (the_cpu w) ! unat entry))]\<rparr>)"
  using assms by (simp add: TryCaches_probe_def Let_def log_call_def)

lemma probe_dcache_hit:
  assumes "instr (lq (the_cpu w) ! unat entry) = Some a" and "instrs w a = Some ins"
    and "AXP_Dcache_Status E (calls w) (the_cpu w) (virtAddress (lq (the_cpu w) ! unat entry))
             (physAddress (lq (the_cpu w) ! unat entry)) = AXP_21264_CACHE_HIT K"
  shows "TryCaches_probe K E entry w =
           Inr (w\<lparr>the_cpu := (the_cpu w)\<lparr>lq := (lq (the_cpu w))[unat entry :=
                        (lq (the_cpu w) ! unat entry)\<lparr>AXP_MBOX_QUEUE.state := LQComplete\<rparr>]\<rparr>,
                  instrs := (instrs w)(a \<mapsto>
                    ins\<lparr>destv := snd (AXP_DcacheRead E
                       (calls w @ [Call_Dcache_Status (virtAddress (lq (the_cpu w) ! unat entry))
                                     (physAddress (lq (the_cpu w) ! unat entry))])
                       (the_cpu w)
                       (virtAddress (lq (the_cpu w) ! unat entry))
                       (physAddress (lq (the_cpu w) ! unat entry))
                       (len (lq (the_cpu w) ! unat entry)) 0)\<rparr>),
                  calls := calls w @
                    [Call_Dcache_Status (virtAddress (lq (the_cpu w) ! unat entry))
                       (physAddress (lq (the_cpu w) ! unat entry)),
                     Call_DcacheRead (virtAddress (lq (the_cpu w) ! unat entry))
                       (physAddress (lq (the_cpu w) ! unat entry))
                       (len (lq (the_cpu w) ! unat entry))]\<rparr>)"
  using assms
  by (simp add: TryCaches_probe_def Let_def update_instr_def deref_instr_def case_prod_beta
        log_call_def update_lq_def)

lemma probe_bcache_hit:
  assumes "instr (lq (the_cpu w) ! unat entry) = Some a" and "instrs w a = Some ins"
    and "AXP_Dcache_Status E (calls w) (the_cpu w) (virtAddress (lq (the_cpu w) ! unat entry))
             (physAddress (lq (the_cpu w) ! unat entry)) \<noteq> AXP_21264_CACHE_HIT K"
    and "AXP_21264_Bcache_Status E
           (calls w @ [Call_Dcache_Status (virtAddress (lq (the_cpu w) ! unat entry))
                         (physAddress (lq (the_cpu w) ! unat entry))])
           (the_cpu w) (physAddress (lq (the_cpu w) ! unat entry)) = AXP_21264_CACHE_HIT K"
  shows "TryCaches_probe K E entry w =
           Inr (w\<lparr>the_cpu := (the_cpu w)\<lparr>lq := (lq (the_cpu w))[unat entry :=
                        (lq (the_cpu w) ! unat entry)\<lparr>AXP_MBOX_QUEUE.state := LQComplete\<rparr>]\<rparr>,
                  instrs := (instrs w)(a \<mapsto>
                    ins\<lparr>destv := snd (AXP_DcacheRead E
                       (calls w @
                          [Call_Dcache_Status (virtAddress (lq (the_cpu w) ! unat entry))
                             (physAddress (lq (the_cpu w) ! unat entry)),
                           Call_Bcache_Status (physAddress (lq (the_cpu w) ! unat entry)),
                           Call_CopyBcacheToDcache (virtAddress (lq (the_cpu w) ! unat entry))
                             (physAddress (lq (the_cpu w) ! unat entry))])
                       (the_cpu w)
                       (virtAddress (lq (the_cpu w) ! unat entry))
                       (physAddress (lq (the_cpu w) ! unat entry))
                       (len (lq (the_cpu w) ! unat entry)) 0)\<rparr>),
                  calls := calls w @
                    [Call_Dcache_Status (virtAddress (lq (the_cpu w) ! unat entry))
                       (physAddress (lq (the_cpu w) ! unat entry)),
                     Call_Bcache_Status (physAddress (lq (the_cpu w) ! unat entry)),
                     Call_CopyBcacheToDcache (virtAddress (lq (the_cpu w) ! unat entry))
                       (physAddress (lq (the_cpu w) ! unat entry)),
                     Call_DcacheRead (virtAddress (lq (the_cpu w) ! unat entry))
                       (physAddress (lq (the_cpu w) ! unat entry))
                       (len (lq (the_cpu w) ! unat entry))]\<rparr>)"
  using assms
  by (simp add: TryCaches_probe_def Let_def update_instr_def deref_instr_def case_prod_beta
        log_call_def update_lq_def)

subsection \<open>The routines on the example states\<close>

lemma ex_K_simps:
  "AXP_MBOX_QUEUE_LEN ex_K = 3" "AXP_21264_CACHE_HIT ex_K = 1" "AXP_HW_LD_LONGWORD ex_K = 1"
  by (simp_all add: ex_K_def)

lemma ex_env_simps:
  "AXP_va2pa ex_env cs c a p u acc = (a, False, if a = 0 then 7 else 0)"
  "AXP_Dcache_Status ex_env cs c a p = (if a = 0x1000 then 1 else 0)"
  "AXP_21264_Bcache_Status ex_env cs c p = (if p = 0x5000 then 1 else 0)"
  "AXP_DcacheRead ex_env cs c a p n d = (True, 0xEE)"
  "AXP_21264_IS_IO_ADDR ex_env p = False"
  by (simp_all add: ex_env_def)

lemma ex_world_simps:
  "lq (the_cpu (ex_world l stores descs hm)) = [l, ex_queue_entry, ex_queue_entry]"
  "sq (the_cpu (ex_world l stores descs hm)) = stores"
  "instrs (ex_world l stores descs hm) a =
     (if a < length descs then Some (descs ! a) else None)"
  "hostmem (ex_world l stores descs hm) = hm"
  "calls (ex_world l stores descs hm) = []"
  by (simp_all add: ex_world_def)

lemma ex_entry_simps:
  "virtAddress (ex_load a n) = a" "physAddress (ex_load a n) = a" "len (ex_load a n) = n"
  "instr (ex_load a n) = Some 0" "AXP_MBOX_QUEUE.state (ex_load a n) = LQReadPending"
  "qvalue (ex_store a n v p st) = v" "virtAddress (ex_store a n v p st) = a"
  "len (ex_store a n v p st) = n" "instr (ex_store a n v p st) = Some p"
  "AXP_MBOX_QUEUE.state (ex_store a n v p st) = st"
  "AXP_MBOX_QUEUE.state ex_queue_entry = QNotInUse"
  by (simp_all add: ex_load_def ex_store_def ex_queue_entry_def)

lemma ex_ins_simps:
  "destv (ex_load_ins u opc) = 85" "pc (ex_load_ins u opc) = 4096"
  "opcode (ex_load_ins u opc) = opc" "aDest (ex_load_ins u opc) = 3"
  "uniqueID (ex_load_ins u opc) = u" "uniqueID (ex_store_ins u) = u"
  by (simp_all add: ex_load_ins_def ex_store_ins_def ex_ins_def)

lemma ex_new_load_simps:
  "virtAddress (ex_new_load a) = a" "instr (ex_new_load a) = Some 0"
  "AXP_MBOX_QUEUE.state (ex_new_load a) = Initial" "len (ex_new_load a) = 0"
  "physAddress (ex_new_load a) = 0"
  by (simp_all add: ex_new_load_def ex_queue_entry_def)

lemma upt_3: "[0..<3] = [0, 1, 2]"
  by (simp add: upt_rec)

lemma ex_instrs_2:
  "instrs (ex_world l stores [i0, i1] hm) 0 = Some i0"
  "instrs (ex_world l stores [i0, i1] hm) (Suc 0) = Some i1"
  by (simp_all add: ex_world_simps)

lemma ex_instrs_4:
  "instrs (ex_world l stores [i0, i1, i2, i3] hm) 0 = Some i0"
  "instrs (ex_world l stores [i0, i1, i2, i3] hm) (Suc 0) = Some i1"
  "instrs (ex_world l stores [i0, i1, i2, i3] hm) 2 = Some i2"
  "instrs (ex_world l stores [i0, i1, i2, i3] hm) 3 = Some i3"
  by (simp_all add: ex_world_simps)

lemmas ex_scan_simps =
  ex_K_simps upt_3 TryCaches_scan_step_def deref_instr_def ex_world_simps(1,2) ex_entry_simps
  ex_instrs_2 ex_instrs_4 ex_ins_simps

lemma scan_empty_sq:
  "TryCaches_scan (ex_world l [ex_queue_entry, ex_queue_entry, ex_queue_entry] ids hm) l
     [0..<unat (AXP_MBOX_QUEUE_LEN ex_K)] (False, 0) = Inr (False, 0)"
  by (simp add: ex_K_simps upt_3 TryCaches_scan_step_def ex_world_simps ex_entry_simps)

lemma ex_scan_younger:
  "TryCaches_scan
     (ex_world (ex_load 0x1000 1)
        [ex_store 0x1000 1 0xAB 1 SQWritePending, ex_queue_entry, ex_queue_entry] [ex_load_ins 11 LDBU, ex_store_ins 12] Map.empty)
     (ex_load 0x1000 1) [0..<unat (AXP_MBOX_QUEUE_LEN ex_K)] (False, 0) = Inr (True, 0)"
  by (simp add: ex_scan_simps)

lemma ex_scan_older:
  "TryCaches_scan
     (ex_world (ex_load 0x1000 1)
        [ex_store 0x1000 1 0xAB 1 SQWritePending, ex_queue_entry, ex_queue_entry] [ex_load_ins 11 LDBU, ex_store_ins 10] Map.empty)
     (ex_load 0x1000 1) [0..<unat (AXP_MBOX_QUEUE_LEN ex_K)] (False, 0) = Inr (False, 0)"
  by (simp add: ex_scan_simps)

lemma ex_scan_three_older:
  "TryCaches_scan
     (ex_world (ex_load 0x2000 1)
        [ex_store 0x2000 1 1 1 Initial, ex_store 0x2000 1 2 2 SQWritePending,
         ex_store 0x2000 1 3 3 SQComplete] [ex_load_ins 10 LDBU, ex_store_ins 5, ex_store_ins 7, ex_store_ins 9] Map.empty)
     (ex_load 0x2000 1) [0..<unat (AXP_MBOX_QUEUE_LEN ex_K)] (False, 0) = Inr (False, 0)"
  by (simp add: ex_scan_simps)

lemma ex_scan_three_younger:
  "TryCaches_scan
     (ex_world (ex_load 0x2000 1)
        [ex_store 0x2000 1 1 1 Initial, ex_store 0x2000 1 2 2 SQWritePending,
         ex_store 0x2000 1 3 3 SQComplete] [ex_load_ins 10 LDBU, ex_store_ins 15, ex_store_ins 19, ex_store_ins 17] Map.empty)
     (ex_load 0x2000 1) [0..<unat (AXP_MBOX_QUEUE_LEN ex_K)] (False, 0) = Inr (True, 1)"
  by (simp add: ex_scan_simps)

lemma ex_scan_quad:
  "TryCaches_scan
     (ex_world (ex_load 0x3000 8)
        [ex_store 0x3000 8 0x1122334455667788 1 SQWritePending, ex_queue_entry, ex_queue_entry]
        [ex_load_ins 10 LDQ, ex_store_ins 12] hm)
     (ex_load 0x3000 8) [0..<unat (AXP_MBOX_QUEUE_LEN ex_K)] (False, 0) = Inr (True, 0)"
  by (simp add: ex_scan_simps)

lemma ex_TryCaches_forward:
  assumes "TryCaches_scan (ex_world l stores descs hm) l
             [0..<unat (AXP_MBOX_QUEUE_LEN ex_K)] (False, 0) = Inr (True, n)"
  shows "AXP_21264_Mbox_TryCaches ex_K E 0 (ex_world l stores descs hm) =
           TryCaches_forward 0 n (ex_world l stores descs hm)"
  using assms by (intro TryCaches_forwarded) (simp_all add: ex_world_simps)

lemma ex_TryCaches_probe:
  assumes "TryCaches_scan (ex_world l stores descs hm) l
             [0..<unat (AXP_MBOX_QUEUE_LEN ex_K)] (False, 0) = Inr (False, n)"
  shows "AXP_21264_Mbox_TryCaches ex_K E 0 (ex_world l stores descs hm) =
           TryCaches_probe ex_K E 0 (ex_world l stores descs hm)"
  using assms by (intro TryCaches_probed) (simp_all add: ex_world_simps)

lemmas ex_forward_simps =
  TryCaches_forward_def update_instr_def update_lq_def store_low_def Let_def mask_eq_exp_minus_1 ex_world_simps(1,2,4,5)
  ex_entry_simps ex_instrs_2 ex_instrs_4 ex_ins_simps lq_state_after_def destv_after_def
  calls_after_def

lemmas ex_probe_simps =
  TryCaches_probe_def Let_def update_instr_def deref_instr_def update_lq_def log_call_def
  ex_world_simps(1,2,4,5) ex_entry_simps ex_instrs_2 ex_instrs_4 ex_env_simps ex_K_simps
  ex_ins_simps lq_state_after_def destv_after_def calls_after_def

lemma host_read_numeral:
  "host_read hm a (numeral k) =
     (case hm a of
        None \<Rightarrow> None
      | Some b \<Rightarrow>
          (case host_read hm (a + 1) (pred_numeral k) of
             None \<Rightarrow> None
           | Some r \<Rightarrow> Some (ucast b OR push_bit 8 r)))"
  by (simp add: numeral_eq_Suc)

lemma ex_host_read_empty: "host_read Map.empty a 8 = None"
  by (simp add: host_read_numeral)

lemma ex_host_read:
  "host_read ex_hostmem 0x1122334455667788 8 = Some 0xAAAAAAAAAAAAAAAA"
  by (simp add: host_read_numeral ex_hostmem_def)

lemma ex_LQ_Init_len:
  "LQ_Init_len ex_K 0 (ex_world (ex_new_load b) stores [ex_load_ins 10 LDQ] Map.empty) =
     Inr (update_lq (ex_world (ex_new_load b) stores [ex_load_ins 10 LDQ] Map.empty) 0 (\<lambda>q. q\<lparr>len := 8\<rparr>))"
  by (simp add: LQ_Init_len_def deref_instr_def ex_world_simps ex_new_load_simps ex_ins_simps)

subsection \<open>The scan of the store queue\<close>

text \<open>
  The loop keeps its invariant at every index below 256 (\<^verbatim>\<open>nextOlderStore\<close> is a
  byte), so after the scan of a store queue of at most 256 slots: if a store was
  selected, it is one the test accepts and no accepted store has a greater \<open>uniqueID\<close>;
  if none was selected, the test accepts none. A store that the test accepts has the
  load's virtual address, at least its length, one of the states \<open>Initial\<close>,
  \<open>SQWritePending\<close>, \<open>SQComplete\<close>, and a \<open>uniqueID\<close> greater than the load's.
\<close>

lemma unat_of_nat_u8: "ii < 256 \<Longrightarrow> unat (of_nat ii :: u8) = ii"
  by (simp add: unat_of_nat)

lemma scan_step_inv:
  assumes "scan_inv w l D acc" and "ii < 256"
    and "TryCaches_scan_step w l ii acc = Inr acc'"
  shows "scan_inv w l (insert ii D) acc'"
proof (cases acc)
  case (Pair b n)
  show ?thesis
  proof (cases "scan_accepts w l ii")
    case False
    with assms(3) Pair have "acc' = acc"
      by (auto simp add: TryCaches_scan_step_def scan_accepts_def Let_def
            split: if_splits sum.splits)
    with assms(1) False Pair show ?thesis
      by (auto simp add: scan_inv_def)
  next
    case True
    then obtain lins sins where
      d: "deref_instr w (instr l) = Inr lins"
         "deref_instr w (instr (sq (the_cpu w) ! ii)) = Inr sins"
         "uniqueID lins < uniqueID sins"
      by (auto simp add: scan_accepts_def Let_def split: sum.splits)
    have u: "store_uniqueID w ii = uniqueID sins"
      using d(2) by (simp add: store_uniqueID_def)
    show ?thesis
    proof (cases b)
      case False
      with assms(3) Pair True d have "acc' = (True, of_nat ii)"
        by (auto simp add: TryCaches_scan_step_def scan_accepts_def Let_def split: if_splits)
      with assms(1,2) Pair False True show ?thesis
        by (auto simp add: scan_inv_def unat_of_nat_u8)
    next
      case b: True
      with assms(1) Pair have
        n: "unat n \<in> D" "scan_accepts w l (unat n)"
           "\<forall>j\<in>D. scan_accepts w l j \<longrightarrow> store_uniqueID w j \<le> store_uniqueID w (unat n)"
        by (simp_all add: scan_inv_def)
      from n(2) obtain nins where
        nd: "deref_instr w (instr (sq (the_cpu w) ! unat n)) = Inr nins"
        by (auto simp add: scan_accepts_def Let_def split: sum.splits)
      have nu: "store_uniqueID w (unat n) = uniqueID nins"
        using nd by (simp add: store_uniqueID_def)
      show ?thesis
      proof (cases "uniqueID sins > uniqueID nins")
        case gt: True
        with assms(3) Pair True d b nd have "acc' = (True, of_nat ii)"
          by (auto simp add: TryCaches_scan_step_def scan_accepts_def Let_def split: if_splits)
        with assms(2) True n u nu gt show ?thesis
          by (auto simp add: scan_inv_def unat_of_nat_u8)
      next
        case le: False
        with assms(3) Pair True d b nd have "acc' = (True, n)"
          by (auto simp add: TryCaches_scan_step_def scan_accepts_def Let_def split: if_splits)
        with True n u nu le show ?thesis
          by (auto simp add: scan_inv_def)
      qed
    qed
  qed
qed

lemma scan_list_inv:
  assumes "scan_inv w l D acc" and "\<forall>i\<in>set xs. i < 256"
    and "TryCaches_scan w l xs acc = Inr acc'"
  shows "scan_inv w l (D \<union> set xs) acc'"
  using assms
proof (induction xs arbitrary: D acc)
  case Nil
  then show ?case by simp
next
  case (Cons x xs)
  from Cons.prems(3) obtain acc1 where
    s: "TryCaches_scan_step w l x acc = Inr acc1" "TryCaches_scan w l xs acc1 = Inr acc'"
    by (auto split: sum.splits)
  from Cons.prems(1,2) s(1) have "scan_inv w l (insert x D) acc1"
    by (intro scan_step_inv) simp_all
  with Cons.IH [of "insert x D" acc1] Cons.prems(2) s(2)
  show ?case by simp
qed

lemma TryCaches_scan_selects:
  assumes "unat (AXP_MBOX_QUEUE_LEN K) \<le> 256"
    and "TryCaches_scan w l [0..<unat (AXP_MBOX_QUEUE_LEN K)] (False, 0) = Inr (b, n)"
  shows "b \<Longrightarrow> unat n < unat (AXP_MBOX_QUEUE_LEN K) \<and> scan_accepts w l (unat n) \<and>
           (\<forall>j < unat (AXP_MBOX_QUEUE_LEN K). scan_accepts w l j \<longrightarrow>
              store_uniqueID w j \<le> store_uniqueID w (unat n))"
    and "\<not> b \<Longrightarrow> \<forall>j < unat (AXP_MBOX_QUEUE_LEN K). \<not> scan_accepts w l j"
proof -
  have "scan_inv w l {} (False, 0)"
    by (simp add: scan_inv_def)
  moreover have "\<forall>i\<in>set [0..<unat (AXP_MBOX_QUEUE_LEN K)]. i < 256"
    using assms(1) by simp
  ultimately have "scan_inv w l ({} \<union> set [0..<unat (AXP_MBOX_QUEUE_LEN K)]) (b, n)"
    using assms(2) by (rule scan_list_inv)
  then show "b \<Longrightarrow> unat n < unat (AXP_MBOX_QUEUE_LEN K) \<and> scan_accepts w l (unat n) \<and>
           (\<forall>j < unat (AXP_MBOX_QUEUE_LEN K). scan_accepts w l j \<longrightarrow>
              store_uniqueID w j \<le> store_uniqueID w (unat n))"
    and "\<not> b \<Longrightarrow> \<forall>j < unat (AXP_MBOX_QUEUE_LEN K). \<not> scan_accepts w l j"
    by (auto simp add: scan_inv_def)
qed

lemma scan_accepts_younger:
  assumes "scan_accepts w l ii"
  shows "\<exists>lins sins. deref_instr w (instr l) = Inr lins \<and>
           deref_instr w (instr (sq (the_cpu w) ! ii)) = Inr sins \<and>
           uniqueID lins < uniqueID sins \<and>
           virtAddress (sq (the_cpu w) ! ii) = virtAddress l \<and>
           len l \<le> len (sq (the_cpu w) ! ii) \<and>
           AXP_MBOX_QUEUE.state (sq (the_cpu w) ! ii) \<in> {Initial, SQWritePending, SQComplete}"
  using assms
  by (auto simp add: scan_accepts_def Let_def split: sum.splits)

subsection \<open>Which store is forwarded\<close>

text \<open>
  Claim C1 says that a store is selected as the forwarding source only if its
  \<open>uniqueID\<close> is smaller than the load's. The source compares the other way round
  (\<^verbatim>\<open>lqEntry->instr->uniqueID < cpu->sq[ii].instr->uniqueID\<close>), under a comment that asks
  for a store older than the load. With a load of \<open>uniqueID\<close> 11 and a store of the same
  byte with \<open>uniqueID\<close> 12, the scan selects the store and \<open>0xAB\<close> is forwarded without
  any cache access; with the store's \<open>uniqueID\<close> 10 the scan selects nothing and the
  load is served from the Dcache.
\<close>

theorem TryCaches_forwards_from_younger_store:
  "TryCaches_scan
     (ex_world (ex_load 0x1000 1)
        [ex_store 0x1000 1 0xAB 1 SQWritePending, ex_queue_entry, ex_queue_entry] [ex_load_ins 11 LDBU, ex_store_ins 12] Map.empty)
     (ex_load 0x1000 1) [0..<unat (AXP_MBOX_QUEUE_LEN ex_K)] (False, 0) = Inr (True, 0) \<and>
   destv_after (AXP_21264_Mbox_TryCaches ex_K ex_env 0
     (ex_world (ex_load 0x1000 1)
        [ex_store 0x1000 1 0xAB 1 SQWritePending, ex_queue_entry, ex_queue_entry] [ex_load_ins 11 LDBU, ex_store_ins 12] Map.empty)) 0
     = Some 0xAB \<and>
   calls_after (AXP_21264_Mbox_TryCaches ex_K ex_env 0
     (ex_world (ex_load 0x1000 1)
        [ex_store 0x1000 1 0xAB 1 SQWritePending, ex_queue_entry, ex_queue_entry] [ex_load_ins 11 LDBU, ex_store_ins 12] Map.empty))
     = Some [] \<and>
   TryCaches_scan
     (ex_world (ex_load 0x1000 1)
        [ex_store 0x1000 1 0xAB 1 SQWritePending, ex_queue_entry, ex_queue_entry] [ex_load_ins 11 LDBU, ex_store_ins 10] Map.empty)
     (ex_load 0x1000 1) [0..<unat (AXP_MBOX_QUEUE_LEN ex_K)] (False, 0) = Inr (False, 0) \<and>
   destv_after (AXP_21264_Mbox_TryCaches ex_K ex_env 0
     (ex_world (ex_load 0x1000 1)
        [ex_store 0x1000 1 0xAB 1 SQWritePending, ex_queue_entry, ex_queue_entry] [ex_load_ins 11 LDBU, ex_store_ins 10] Map.empty)) 0
     = Some 0xEE \<and>
   calls_after (AXP_21264_Mbox_TryCaches ex_K ex_env 0
     (ex_world (ex_load 0x1000 1)
        [ex_store 0x1000 1 0xAB 1 SQWritePending, ex_queue_entry, ex_queue_entry] [ex_load_ins 11 LDBU, ex_store_ins 10] Map.empty))
     = Some [Call_Dcache_Status 0x1000 0x1000, Call_DcacheRead 0x1000 0x1000 1]"
proof -
  let ?y = "ex_world (ex_load 0x1000 1)
        [ex_store 0x1000 1 0xAB 1 SQWritePending, ex_queue_entry, ex_queue_entry] [ex_load_ins 11 LDBU, ex_store_ins 12] Map.empty"
  let ?o = "ex_world (ex_load 0x1000 1)
        [ex_store 0x1000 1 0xAB 1 SQWritePending, ex_queue_entry, ex_queue_entry] [ex_load_ins 11 LDBU, ex_store_ins 10] Map.empty"
  have y: "AXP_21264_Mbox_TryCaches ex_K ex_env 0 ?y = TryCaches_forward 0 0 ?y"
    by (rule ex_TryCaches_forward [OF ex_scan_younger])
  have o: "AXP_21264_Mbox_TryCaches ex_K ex_env 0 ?o = TryCaches_probe ex_K ex_env 0 ?o"
    by (rule ex_TryCaches_probe [OF ex_scan_older])
  have r: "destv_after (TryCaches_forward 0 0 ?y) 0 = Some 0xAB"
          "calls_after (TryCaches_forward 0 0 ?y) = Some []"
    by (simp_all add: ex_forward_simps)
  have p: "destv_after (TryCaches_probe ex_K ex_env 0 ?o) 0 = Some 0xEE"
          "calls_after (TryCaches_probe ex_K ex_env 0 ?o) =
             Some [Call_Dcache_Status 0x1000 0x1000, Call_DcacheRead 0x1000 0x1000 1]"
    by (simp_all add: ex_probe_simps)
  show ?thesis
    by (simp only: y o r p ex_scan_younger ex_scan_older simp_thms)
qed

text \<open>
  Claim C2 says that among several older stores to the load's address the one with the
  greatest \<open>uniqueID\<close> supplies the value. With stores of the bytes 1, 2, 3 of
  \<open>uniqueID\<close> 5, 7, 9 and a load of \<open>uniqueID\<close> 10, the scan selects no store, the
  caches are probed and miss, and the load stays pending with \<open>destv\<close> untouched. With
  the \<open>uniqueID\<close>s 15, 19, 17 the scan selects the store of \<open>uniqueID\<close> 19: the
  greatest among the stores it accepts, which are the younger ones.
\<close>

theorem TryCaches_ignores_older_stores:
  "TryCaches_scan
     (ex_world (ex_load 0x2000 1)
        [ex_store 0x2000 1 1 1 Initial, ex_store 0x2000 1 2 2 SQWritePending,
         ex_store 0x2000 1 3 3 SQComplete] [ex_load_ins 10 LDBU, ex_store_ins 5, ex_store_ins 7, ex_store_ins 9] Map.empty)
     (ex_load 0x2000 1) [0..<unat (AXP_MBOX_QUEUE_LEN ex_K)] (False, 0) = Inr (False, 0) \<and>
   destv_after (AXP_21264_Mbox_TryCaches ex_K ex_env 0
     (ex_world (ex_load 0x2000 1)
        [ex_store 0x2000 1 1 1 Initial, ex_store 0x2000 1 2 2 SQWritePending,
         ex_store 0x2000 1 3 3 SQComplete] [ex_load_ins 10 LDBU, ex_store_ins 5, ex_store_ins 7, ex_store_ins 9] Map.empty)) 0 = Some 85 \<and>
   lq_state_after (AXP_21264_Mbox_TryCaches ex_K ex_env 0
     (ex_world (ex_load 0x2000 1)
        [ex_store 0x2000 1 1 1 Initial, ex_store 0x2000 1 2 2 SQWritePending,
         ex_store 0x2000 1 3 3 SQComplete] [ex_load_ins 10 LDBU, ex_store_ins 5, ex_store_ins 7, ex_store_ins 9] Map.empty)) 0 = Some LQReadPending \<and>
   calls_after (AXP_21264_Mbox_TryCaches ex_K ex_env 0
     (ex_world (ex_load 0x2000 1)
        [ex_store 0x2000 1 1 1 Initial, ex_store 0x2000 1 2 2 SQWritePending,
         ex_store 0x2000 1 3 3 SQComplete] [ex_load_ins 10 LDBU, ex_store_ins 5, ex_store_ins 7, ex_store_ins 9] Map.empty))
     = Some [Call_Dcache_Status 0x2000 0x2000, Call_Bcache_Status 0x2000,
             Call_Add_MAF LDx 0x2000 0 1] \<and>
   TryCaches_scan
     (ex_world (ex_load 0x2000 1)
        [ex_store 0x2000 1 1 1 Initial, ex_store 0x2000 1 2 2 SQWritePending,
         ex_store 0x2000 1 3 3 SQComplete] [ex_load_ins 10 LDBU, ex_store_ins 15, ex_store_ins 19, ex_store_ins 17] Map.empty)
     (ex_load 0x2000 1) [0..<unat (AXP_MBOX_QUEUE_LEN ex_K)] (False, 0) = Inr (True, 1) \<and>
   destv_after (AXP_21264_Mbox_TryCaches ex_K ex_env 0
     (ex_world (ex_load 0x2000 1)
        [ex_store 0x2000 1 1 1 Initial, ex_store 0x2000 1 2 2 SQWritePending,
         ex_store 0x2000 1 3 3 SQComplete] [ex_load_ins 10 LDBU, ex_store_ins 15, ex_store_ins 19, ex_store_ins 17] Map.empty)) 0 = Some 2"
proof -
  let ?sq = "[ex_store 0x2000 1 1 1 Initial, ex_store 0x2000 1 2 2 SQWritePending,
         ex_store 0x2000 1 3 3 SQComplete]"
  let ?o = "ex_world (ex_load 0x2000 1) ?sq [ex_load_ins 10 LDBU, ex_store_ins 5, ex_store_ins 7, ex_store_ins 9] Map.empty"
  let ?y = "ex_world (ex_load 0x2000 1) ?sq [ex_load_ins 10 LDBU, ex_store_ins 15, ex_store_ins 19, ex_store_ins 17] Map.empty"
  have o: "AXP_21264_Mbox_TryCaches ex_K ex_env 0 ?o = TryCaches_probe ex_K ex_env 0 ?o"
    by (rule ex_TryCaches_probe [OF ex_scan_three_older])
  have y: "AXP_21264_Mbox_TryCaches ex_K ex_env 0 ?y = TryCaches_forward 0 1 ?y"
    by (rule ex_TryCaches_forward [OF ex_scan_three_younger])
  have p: "destv_after (TryCaches_probe ex_K ex_env 0 ?o) 0 = Some 85"
          "lq_state_after (TryCaches_probe ex_K ex_env 0 ?o) 0 = Some LQReadPending"
          "calls_after (TryCaches_probe ex_K ex_env 0 ?o) =
             Some [Call_Dcache_Status 0x2000 0x2000, Call_Bcache_Status 0x2000,
                   Call_Add_MAF LDx 0x2000 0 1]"
    by (simp_all add: ex_probe_simps)
  have r: "destv_after (TryCaches_forward 0 1 ?y) 0 = Some 2"
    by (simp add: ex_forward_simps)
  show ?thesis
    by (simp only: y o r p ex_scan_three_younger ex_scan_three_older simp_thms)
qed

subsection \<open>The forwarded value\<close>

text \<open>
  When a store was selected: a load of one byte receives the low byte of the store's
  value; a load of 2, 4 or 8 bytes receives what the process memory holds at the address
  equal to the store's value, and the routine faults if nothing is mapped there.
\<close>

lemma store_low_zero: "store_low n 0 v = v AND mask (8 * n)"
  by (simp add: store_low_def)

lemma TryCaches_forward_byte:
  assumes "instr (lq (the_cpu w) ! unat entry) = Some a" and "instrs w a = Some ins"
    and "len (lq (the_cpu w) ! unat entry) = 1"
    and "unat n < length (sq (the_cpu w))"
  shows "TryCaches_forward entry n w =
           Inr (w\<lparr>the_cpu := (the_cpu w)\<lparr>lq := (lq (the_cpu w))[unat entry :=
                        (lq (the_cpu w) ! unat entry)\<lparr>AXP_MBOX_QUEUE.state := LQComplete\<rparr>]\<rparr>,
                  instrs := (instrs w)(a \<mapsto>
                    ins\<lparr>destv := qvalue (sq (the_cpu w) ! unat n) AND 0xFF\<rparr>)\<rparr>)"
  using assms
  by (simp add: TryCaches_forward_def Let_def update_instr_def update_lq_def store_low_zero
        mask_eq_exp_minus_1)

lemma TryCaches_forward_wide:
  assumes "instr (lq (the_cpu w) ! unat entry) = Some a" and "instrs w a = Some ins"
    and "len (lq (the_cpu w) ! unat entry) = 2 \<or> len (lq (the_cpu w) ! unat entry) = 4 \<or>
         len (lq (the_cpu w) ! unat entry) = 8"
    and "unat n < length (sq (the_cpu w))"
  shows "TryCaches_forward entry n w =
           (case host_read (hostmem w) (qvalue (sq (the_cpu w) ! unat n))
                   (len (lq (the_cpu w) ! unat entry)) of
              None \<Rightarrow> Inl BadAddress
            | Some m \<Rightarrow>
                Inr (w\<lparr>the_cpu := (the_cpu w)\<lparr>lq := (lq (the_cpu w))[unat entry :=
                          (lq (the_cpu w) ! unat entry)\<lparr>AXP_MBOX_QUEUE.state := LQComplete\<rparr>]\<rparr>,
                       instrs := (instrs w)(a \<mapsto>
                         ins\<lparr>destv := m AND mask (8 * len (lq (the_cpu w) ! unat entry))\<rparr>)\<rparr>))"
  using assms
  by (auto simp add: TryCaches_forward_def Let_def update_instr_def update_lq_def store_low_zero
        split: option.splits)

text \<open>
  Claim C3 says that the low \<open>len\<close> bytes of the selected store's value are copied
  into \<open>destv\<close>, for \<open>len\<close> 1, 2, 4 and 8. For a quadword load forwarded from a store
  of the value \<open>0x1122334455667788\<close>, the routine reads the process memory at the
  address \<open>0x1122334455667788\<close>: it faults when nothing is mapped there, and delivers
  the bytes found there (\<open>0xAA\<close> each) when something is.
\<close>

theorem TryCaches_forward_reads_through_value:
  "qvalue (ex_store 0x3000 8 0x1122334455667788 1 SQWritePending) = 0x1122334455667788 \<and>
   AXP_21264_Mbox_TryCaches ex_K ex_env 0
     (ex_world (ex_load 0x3000 8)
        [ex_store 0x3000 8 0x1122334455667788 1 SQWritePending, ex_queue_entry, ex_queue_entry]
        [ex_load_ins 10 LDQ, ex_store_ins 12] Map.empty) = Inl BadAddress \<and>
   destv_after (AXP_21264_Mbox_TryCaches ex_K ex_env 0
     (ex_world (ex_load 0x3000 8)
        [ex_store 0x3000 8 0x1122334455667788 1 SQWritePending, ex_queue_entry, ex_queue_entry]
        [ex_load_ins 10 LDQ, ex_store_ins 12] ex_hostmem)) 0 = Some 0xAAAAAAAAAAAAAAAA \<and>
   lq_state_after (AXP_21264_Mbox_TryCaches ex_K ex_env 0
     (ex_world (ex_load 0x3000 8)
        [ex_store 0x3000 8 0x1122334455667788 1 SQWritePending, ex_queue_entry, ex_queue_entry]
        [ex_load_ins 10 LDQ, ex_store_ins 12] ex_hostmem)) 0 = Some LQComplete"
proof -
  let ?sq = "[ex_store 0x3000 8 0x1122334455667788 1 SQWritePending, ex_queue_entry, ex_queue_entry]"
  let ?e = "ex_world (ex_load 0x3000 8) ?sq [ex_load_ins 10 LDQ, ex_store_ins 12] Map.empty"
  let ?m = "ex_world (ex_load 0x3000 8) ?sq [ex_load_ins 10 LDQ, ex_store_ins 12] ex_hostmem"
  have e: "AXP_21264_Mbox_TryCaches ex_K ex_env 0 ?e = TryCaches_forward 0 0 ?e"
    by (rule ex_TryCaches_forward [OF ex_scan_quad])
  have m: "AXP_21264_Mbox_TryCaches ex_K ex_env 0 ?m = TryCaches_forward 0 0 ?m"
    by (rule ex_TryCaches_forward [OF ex_scan_quad])
  have r: "TryCaches_forward 0 0 ?e = Inl BadAddress"
          "destv_after (TryCaches_forward 0 0 ?m) 0 = Some 0xAAAAAAAAAAAAAAAA"
          "lq_state_after (TryCaches_forward 0 0 ?m) 0 = Some LQComplete"
    by (simp_all add: ex_forward_simps ex_host_read_empty ex_host_read)
  have q: "qvalue (ex_store 0x3000 8 0x1122334455667788 1 SQWritePending) = 0x1122334455667788"
    by (simp add: ex_entry_simps)
  show ?thesis
    by (simp only: e m r q simp_thms)
qed

subsection \<open>Probing the caches\<close>

text \<open>
  Claim C5. Let the load queue entry \<open>entry\<close> be in state \<open>LQReadPending\<close>, with a
  valid instruction pointer, and let the scan of the store queue select no store. Then
  \<^verbatim>\<open>AXP_21264_Mbox_TryCaches\<close> asks for the Dcache status first. On a hit it reads the
  load width from the Dcache into \<open>destv\<close> and completes the entry. On a miss it asks
  for the Bcache status next; on a Bcache hit it copies the block to the Dcache, reads
  the load width into \<open>destv\<close> and completes the entry; on a miss in both it adds a
  miss address file entry with \<open>LDx\<close>, the physical address, the slot number and the
  length, and changes nothing else, so that the entry stays in \<open>LQReadPending\<close>. The
  routine itself does not read \<open>IOflag\<close>: its caller tests it.
\<close>

theorem TryCaches_cache_probing:
  fixes K E entry w
  defines "q \<equiv> lq (the_cpu w) ! unat entry"
  defines "c1 \<equiv> Call_Dcache_Status (virtAddress q) (physAddress q)"
  defines "c2 \<equiv> Call_Bcache_Status (physAddress q)"
  defines "c3 \<equiv> Call_CopyBcacheToDcache (virtAddress q) (physAddress q)"
  defines "c4 \<equiv> Call_DcacheRead (virtAddress q) (physAddress q) (len q)"
  defines "hit1 \<equiv> AXP_Dcache_Status E (calls w) (the_cpu w) (virtAddress q) (physAddress q)
                     = AXP_21264_CACHE_HIT K"
  defines "hit2 \<equiv> AXP_21264_Bcache_Status E (calls w @ [c1]) (the_cpu w) (physAddress q)
                     = AXP_21264_CACHE_HIT K"
  defines "completed \<equiv> (the_cpu w)\<lparr>lq := (lq (the_cpu w))[unat entry :=
                            q\<lparr>AXP_MBOX_QUEUE.state := LQComplete\<rparr>]\<rparr>"
  assumes "unat entry < length (lq (the_cpu w))"
    and "TryCaches_scan w q [0..<unat (AXP_MBOX_QUEUE_LEN K)] (False, 0) = Inr (False, n)"
    and "AXP_MBOX_QUEUE.state q = LQReadPending"
    and "instr q = Some a" and "instrs w a = Some ins"
  shows "(hit1 \<longrightarrow>
            AXP_21264_Mbox_TryCaches K E entry w =
              Inr (w\<lparr>the_cpu := completed,
                     instrs := (instrs w)(a \<mapsto> ins\<lparr>destv := snd (AXP_DcacheRead E
                        (calls w @ [c1]) (the_cpu w) (virtAddress q) (physAddress q) (len q) 0)\<rparr>),
                     calls := calls w @ [c1, c4]\<rparr>)) \<and>
         (\<not> hit1 \<and> hit2 \<longrightarrow>
            AXP_21264_Mbox_TryCaches K E entry w =
              Inr (w\<lparr>the_cpu := completed,
                     instrs := (instrs w)(a \<mapsto> ins\<lparr>destv := snd (AXP_DcacheRead E
                        (calls w @ [c1, c2, c3]) (the_cpu w) (virtAddress q) (physAddress q)
                        (len q) 0)\<rparr>),
                     calls := calls w @ [c1, c2, c3, c4]\<rparr>)) \<and>
         (\<not> hit1 \<and> \<not> hit2 \<longrightarrow>
            AXP_21264_Mbox_TryCaches K E entry w =
              Inr (w\<lparr>calls := calls w @
                     [c1, c2, Call_Add_MAF LDx (physAddress q) entry (len q)]\<rparr>) \<and>
            AXP_MBOX_QUEUE.state (lq (the_cpu w) ! unat entry) = LQReadPending)"
proof -
  have p: "AXP_21264_Mbox_TryCaches K E entry w = TryCaches_probe K E entry w"
    using assms(9,10) unfolding q_def by (rule TryCaches_probed)
  have i: "instr (lq (the_cpu w) ! unat entry) = Some a"
    using assms(12) by (simp add: q_def)
  have A: "hit1 \<Longrightarrow> ?thesis"
    using probe_dcache_hit [OF i assms(13), of E K] assms(11)
    by (simp add: p q_def c1_def c4_def hit1_def completed_def)
  have B: "\<not> hit1 \<Longrightarrow> hit2 \<Longrightarrow> ?thesis"
    using probe_bcache_hit [OF i assms(13), of E K] assms(11)
    by (simp add: p q_def c1_def c2_def c3_def c4_def hit1_def hit2_def completed_def)
  have C: "\<not> hit1 \<Longrightarrow> \<not> hit2 \<Longrightarrow> ?thesis"
    using probe_miss_miss [of E w entry K] assms(11)
    by (simp add: p q_def c1_def c2_def hit1_def hit2_def)
  from A B C show ?thesis by blast
qed

theorem TryCaches_cache_probing_witness:
  "calls_after (AXP_21264_Mbox_TryCaches ex_K ex_env 0
      (ex_world (ex_load 0x1000 8) [ex_queue_entry, ex_queue_entry, ex_queue_entry] [ex_load_ins 10 LDQ] Map.empty))
     = Some [Call_Dcache_Status 0x1000 0x1000, Call_DcacheRead 0x1000 0x1000 8] \<and>
   lq_state_after (AXP_21264_Mbox_TryCaches ex_K ex_env 0
      (ex_world (ex_load 0x1000 8) [ex_queue_entry, ex_queue_entry, ex_queue_entry] [ex_load_ins 10 LDQ] Map.empty)) 0
     = Some LQComplete \<and>
   destv_after (AXP_21264_Mbox_TryCaches ex_K ex_env 0
      (ex_world (ex_load 0x1000 8) [ex_queue_entry, ex_queue_entry, ex_queue_entry] [ex_load_ins 10 LDQ] Map.empty)) 0
     = Some 0xEE \<and>
   calls_after (AXP_21264_Mbox_TryCaches ex_K ex_env 0
      (ex_world (ex_load 0x5000 8) [ex_queue_entry, ex_queue_entry, ex_queue_entry] [ex_load_ins 10 LDQ] Map.empty))
     = Some [Call_Dcache_Status 0x5000 0x5000, Call_Bcache_Status 0x5000,
             Call_CopyBcacheToDcache 0x5000 0x5000, Call_DcacheRead 0x5000 0x5000 8] \<and>
   lq_state_after (AXP_21264_Mbox_TryCaches ex_K ex_env 0
      (ex_world (ex_load 0x5000 8) [ex_queue_entry, ex_queue_entry, ex_queue_entry] [ex_load_ins 10 LDQ] Map.empty)) 0
     = Some LQComplete \<and>
   calls_after (AXP_21264_Mbox_TryCaches ex_K ex_env 0
      (ex_world (ex_load 0x2000 8) [ex_queue_entry, ex_queue_entry, ex_queue_entry] [ex_load_ins 10 LDQ] Map.empty))
     = Some [Call_Dcache_Status 0x2000 0x2000, Call_Bcache_Status 0x2000,
             Call_Add_MAF LDx 0x2000 0 8] \<and>
   lq_state_after (AXP_21264_Mbox_TryCaches ex_K ex_env 0
      (ex_world (ex_load 0x2000 8) [ex_queue_entry, ex_queue_entry, ex_queue_entry] [ex_load_ins 10 LDQ] Map.empty)) 0
     = Some LQReadPending \<and>
   destv_after (AXP_21264_Mbox_TryCaches ex_K ex_env 0
      (ex_world (ex_load 0x2000 8) [ex_queue_entry, ex_queue_entry, ex_queue_entry] [ex_load_ins 10 LDQ] Map.empty)) 0
     = Some 85"
proof -
  let ?sq = "[ex_queue_entry, ex_queue_entry, ex_queue_entry]"
  have h: "unat (0::u8) < length (lq (the_cpu (ex_world (ex_load b 8) ?sq [ex_load_ins 10 LDQ] Map.empty)))"
          "TryCaches_scan (ex_world (ex_load b 8) ?sq [ex_load_ins 10 LDQ] Map.empty)
             (lq (the_cpu (ex_world (ex_load b 8) ?sq [ex_load_ins 10 LDQ] Map.empty)) ! unat (0::u8))
             [0..<unat (AXP_MBOX_QUEUE_LEN ex_K)] (False, 0) = Inr (False, 0)"
          "AXP_MBOX_QUEUE.state (lq (the_cpu (ex_world (ex_load b 8) ?sq [ex_load_ins 10 LDQ] Map.empty)) ! unat (0::u8))
             = LQReadPending"
          "instr (lq (the_cpu (ex_world (ex_load b 8) ?sq [ex_load_ins 10 LDQ] Map.empty)) ! unat (0::u8)) = Some 0"
          "instrs (ex_world (ex_load b 8) ?sq [ex_load_ins 10 LDQ] Map.empty) 0 = Some (ex_load_ins 10 LDQ)"
    for b
    by (simp_all add: ex_world_simps scan_empty_sq ex_entry_simps)
  from TryCaches_cache_probing [where E = ex_env, OF h [of "0x1000"]]
       TryCaches_cache_probing [where E = ex_env, OF h [of "0x5000"]]
       TryCaches_cache_probing [where E = ex_env, OF h [of "0x2000"]]
  show ?thesis
    by (simp add: ex_world_simps ex_entry_simps ex_env_simps ex_K_simps ex_ins_simps
          calls_after_def lq_state_after_def destv_after_def)
qed

subsection \<open>A translation that fails\<close>

lemma LQ_Init_len_effect:
  assumes "instr (lq (the_cpu w) ! unat entry) = Some a" and "instrs w a = Some ins"
    and "LQ_Init_len K entry w = Inr w1"
  shows "calls w1 = calls w"
    and "hostmem w1 = hostmem w"
    and "sq (the_cpu w1) = sq (the_cpu w)"
    and "length (lq (the_cpu w1)) = length (lq (the_cpu w))"
    and "i \<noteq> unat entry \<Longrightarrow> lq (the_cpu w1) ! i = lq (the_cpu w) ! i"
    and "unat entry < length (lq (the_cpu w)) \<Longrightarrow>
           AXP_MBOX_QUEUE.state (lq (the_cpu w1) ! unat entry) =
             AXP_MBOX_QUEUE.state (lq (the_cpu w) ! unat entry) \<and>
           virtAddress (lq (the_cpu w1) ! unat entry) = virtAddress (lq (the_cpu w) ! unat entry) \<and>
           instr (lq (the_cpu w1) ! unat entry) = instr (lq (the_cpu w) ! unat entry)"
    and "\<exists>ins'. instrs w1 a = Some ins' \<and> pc ins' = pc ins \<and> opcode ins' = opcode ins \<and>
           aDest ins' = aDest ins \<and> destv ins' = destv ins \<and> uniqueID ins' = uniqueID ins"
  using assms
  by (auto simp add: LQ_Init_len_def Let_def deref_instr_def update_instr_def
        split: AXP_OPCODE.splits if_splits)

lemma LQ_Init_len_total:
  assumes "instr (lq (the_cpu w) ! unat entry) = Some a" and "instrs w a = Some ins"
  shows "\<exists>w1. LQ_Init_len K entry w = Inr w1"
  using assms
  by (simp add: LQ_Init_len_def Let_def deref_instr_def update_instr_def
        split: AXP_OPCODE.splits)

text \<open>
  Claim C4 says that after a translation fault the entry's state becomes \<open>QNotInUse\<close>.
  On the example state, where the translation of the virtual address 0 fails with fault
  code 7, \<^verbatim>\<open>AXP_21264_Mbox_LQ_Init\<close> reports the event to the Ibox and the entry is
  still in state \<open>Initial\<close> afterwards.
\<close>

theorem LQ_Init_fault_keeps_state:
  "lq_state_after (AXP_21264_Mbox_LQ_Init ex_K ex_env 0
       (ex_world (ex_new_load 0) [ex_queue_entry, ex_queue_entry, ex_queue_entry] [ex_load_ins 10 LDQ] Map.empty)) 0
     = Some Initial \<and>
   calls_after (AXP_21264_Mbox_LQ_Init ex_K ex_env 0
       (ex_world (ex_new_load 0) [ex_queue_entry, ex_queue_entry, ex_queue_entry] [ex_load_ins 10 LDQ] Map.empty))
     = Some [Call_va2pa 0 4096 True Read, Call_Ibox_Event 7 4096 0 LDQ 3 False False]"
  by (simp add: AXP_21264_Mbox_LQ_Init_def ex_LQ_Init_len deref_instr_def ex_world_simps
        ex_new_load_simps ex_ins_simps ex_env_simps lq_state_after_def calls_after_def)

text \<open>
  Claim C4, amended. When the translation of a new load's virtual address returns the
  physical address 0, \<^verbatim>\<open>AXP_21264_Mbox_LQ_Init\<close> calls \<^verbatim>\<open>AXP_21264_Ibox_Event\<close> with
  the fault code, the program counter, the virtual address, the opcode and the
  destination register, and returns. The entry's physical address is 0 and its state is
  the state it had; the store queue and the other load queue entries are as they were.
  Here \<open>w1\<close> is the state after the load's length was stored, which is the state that
  \<^verbatim>\<open>AXP_va2pa\<close> is called in.
\<close>

theorem LQ_Init_translation_fault:
  fixes K E entry w
  defines "q \<equiv> lq (the_cpu w) ! unat entry"
  assumes "unat entry < length (lq (the_cpu w))"
    and "instr q = Some a" and "instrs w a = Some ins"
    and "LQ_Init_len K entry w = Inr w1"
    and "AXP_va2pa E (calls w) (the_cpu w1) (virtAddress q) (pc ins) True Read = (0, x, fault)"
  shows "\<exists>w'. AXP_21264_Mbox_LQ_Init K E entry w = Inr w' \<and>
           calls w' = calls w @
             [Call_va2pa (virtAddress q) (pc ins) True Read,
              Call_Ibox_Event fault (pc ins) (virtAddress q) (opcode ins) (aDest ins) False False] \<and>
           AXP_MBOX_QUEUE.state (lq (the_cpu w') ! unat entry) = AXP_MBOX_QUEUE.state q \<and>
           physAddress (lq (the_cpu w') ! unat entry) = 0 \<and>
           sq (the_cpu w') = sq (the_cpu w) \<and>
           length (lq (the_cpu w')) = length (lq (the_cpu w)) \<and>
           (\<forall>i. i \<noteq> unat entry \<longrightarrow> lq (the_cpu w') ! i = lq (the_cpu w) ! i)"
proof -
  have i: "instr (lq (the_cpu w) ! unat entry) = Some a"
    using assms(3) by (simp add: q_def)
  note e = LQ_Init_len_effect [OF i assms(4,5)]
  from e(7) obtain ins' where
    ins': "instrs w1 a = Some ins'" "pc ins' = pc ins" "opcode ins' = opcode ins"
          "aDest ins' = aDest ins"
    by blast
  have q1: "AXP_MBOX_QUEUE.state (lq (the_cpu w1) ! unat entry) = AXP_MBOX_QUEUE.state q"
           "virtAddress (lq (the_cpu w1) ! unat entry) = virtAddress q"
           "instr (lq (the_cpu w1) ! unat entry) = Some a"
    using e(6) [OF assms(2)] i by (simp_all add: q_def)
  have n: "unat entry < length (lq (the_cpu w1))"
    using e(4) assms(2) by simp
  have d: "deref_instr w1 (Some a) = Inr ins'"
    using ins'(1) by (simp add: deref_instr_def)
  have "AXP_21264_Mbox_LQ_Init K E entry w =
          Inr (log_call
                 (update_lq (log_call w1 (Call_va2pa (virtAddress q) (pc ins) True Read)) entry
                    (\<lambda>q. q\<lparr>physAddress := 0\<rparr>))
                 (Call_Ibox_Event fault (pc ins) (virtAddress q) (opcode ins) (aDest ins)
                    False False))"
    using assms(2,5,6) n
    by (simp add: AXP_21264_Mbox_LQ_Init_def Let_def q1 d ins' e(1))
  then show ?thesis
    using n e by (simp add: q1 nth_list_update)
qed

theorem LQ_Init_translation_fault_witness:
  "\<exists>w'. AXP_21264_Mbox_LQ_Init ex_K ex_env 0
       (ex_world (ex_new_load 0) [ex_queue_entry, ex_queue_entry, ex_queue_entry] [ex_load_ins 10 LDQ] Map.empty)
       = Inr w' \<and>
     calls w' = [Call_va2pa 0 4096 True Read, Call_Ibox_Event 7 4096 0 LDQ 3 False False] \<and>
     AXP_MBOX_QUEUE.state (lq (the_cpu w') ! 0) = Initial \<and>
     physAddress (lq (the_cpu w') ! 0) = 0 \<and>
     sq (the_cpu w') = [ex_queue_entry, ex_queue_entry, ex_queue_entry]"
proof -
  let ?w = "ex_world (ex_new_load 0) [ex_queue_entry, ex_queue_entry, ex_queue_entry] [ex_load_ins 10 LDQ] Map.empty"
  have h: "unat (0::u8) < length (lq (the_cpu ?w))"
          "instr (lq (the_cpu ?w) ! unat (0::u8)) = Some 0"
          "instrs ?w 0 = Some (ex_load_ins 10 LDQ)"
    by (simp_all add: ex_world_simps ex_new_load_simps)
  have v: "AXP_va2pa ex_env (calls ?w)
             (the_cpu (update_lq ?w 0 (\<lambda>q. q\<lparr>len := 8\<rparr>)))
             (virtAddress (lq (the_cpu ?w) ! unat (0::u8))) (pc (ex_load_ins 10 LDQ))
             True Read = (0, False, 7)"
    by (simp add: ex_env_simps ex_world_simps ex_new_load_simps)
  obtain w' where
    "AXP_21264_Mbox_LQ_Init ex_K ex_env 0 ?w = Inr w'"
    "calls w' = calls ?w @
       [Call_va2pa (virtAddress (lq (the_cpu ?w) ! unat (0::u8))) (pc (ex_load_ins 10 LDQ))
          True Read,
        Call_Ibox_Event 7 (pc (ex_load_ins 10 LDQ))
          (virtAddress (lq (the_cpu ?w) ! unat (0::u8))) (opcode (ex_load_ins 10 LDQ))
          (aDest (ex_load_ins 10 LDQ)) False False]"
    "AXP_MBOX_QUEUE.state (lq (the_cpu w') ! unat (0::u8)) =
       AXP_MBOX_QUEUE.state (lq (the_cpu ?w) ! unat (0::u8))"
    "physAddress (lq (the_cpu w') ! unat (0::u8)) = 0"
    "sq (the_cpu w') = sq (the_cpu ?w)"
    using LQ_Init_translation_fault [OF h ex_LQ_Init_len v] by blast
  then show ?thesis
    by (simp add: ex_world_simps ex_new_load_simps ex_ins_simps)
qed

end
